theory Spec2Isabelle
  imports Main "HOL-Library.Word"
begin

section \<open>Identity credential and session store of dex: the etcd and MongoDB drivers\<close>

text \<open>
  The repository implements the repositories of an OpenID Connect provider twice: package
  \<^verbatim>\<open>db/etcd\<close> on the etcd keys API and package \<^verbatim>\<open>db/mongodb\<close> on mgo collections.
  Both packages use the same Go names (\<^verbatim>\<open>sessionKeyRepo.Pop\<close>, \<^verbatim>\<open>refreshTokenRepo.Create\<close>,
  ...), so every constant below carries the package as a prefix: \<open>etcd_\<close> or \<open>mongo_\<close>.

  Conventions of the embedding.
  \<^item> A Go function returning \<^verbatim>\<open>(v, error)\<close> returns \<open>error + 'a\<close>, with \<open>Inl\<close> the
    error; one that also changes the database returns the new database next to the
    value, and leaves the database as it was on every error path of the source.
  \<^item> \<^verbatim>\<open>time.Time\<close> is an instant, the number of nanoseconds since the Unix epoch;
    locations (\<^verbatim>\<open>.UTC()\<close>) do not change the instant and are not modelled.
    \<^verbatim>\<open>time.Duration\<close> is a number of nanoseconds. Go's \<^verbatim>\<open>int64\<close> is \<open>int\<close>: no
    time or length here comes near its bounds.
  \<^item> A node of etcd holds a string: the JSON text of a model struct, or the bytes of the
    key blob. The JSON encoder and parser are parameters, and so is what the reply of
    the keys API makes of a stored value, so that a value that does not parse, or that
    does not come back as it was written, is a branch of the embedding.
  \<^item> A collection of MongoDB holds the documents of a model struct. BSON keeps a time to
    the millisecond: \<open>bson_time\<close> is applied where a session or a session key is
    written, whose expiry times the repositories compare with the clock. The other
    fields are stored as they are.
  \<^item> Backend I/O failures (an unreachable server) are not modelled; the failures of the
    backend that depend on its contents are.
  \<^item> Libraries outside the repository (bcrypt, base64, the AES helpers, JSON and x509
    encoders, \<^verbatim>\<open>url.Parse\<close>, \<^verbatim>\<open>path.Join\<close>, \<^verbatim>\<open>Duration.Seconds\<close>) are parameters of the
    functions that call them.
\<close>

type_synonym time = int
type_synonym Duration = int
type_synonym bytes = "8 word list"

subsection \<open>Errors\<close>

datatype etcd_code =
    ErrorCodeKeyNotFound      \<comment> \<open>100, \<^verbatim>\<open>Key not found\<close>\<close>
  | ErrorCodeNotFile          \<comment> \<open>102, \<^verbatim>\<open>Not a file\<close>\<close>
  | ErrorCodeNotDir           \<comment> \<open>104, \<^verbatim>\<open>Not a directory\<close>\<close>
  | ErrorCodeNodeExist        \<comment> \<open>105, \<^verbatim>\<open>Key already exists\<close>\<close>

datatype bcrypt_error = ErrMismatchedHashAndPassword | ErrHashTooShort

datatype error =
    EtcdError etcd_code                 \<comment> \<open>\<^verbatim>\<open>etcdclient.Error\<close> with its \<^verbatim>\<open>Code\<close>\<close>
  | mgo_ErrNotFound                     \<comment> \<open>\<^verbatim>\<open>mgo.ErrNotFound\<close>\<close>
  | mgo_DuplicateKey                    \<comment> \<open>the error of \<^verbatim>\<open>Insert\<close> on an \<^verbatim>\<open>_id\<close> in use\<close>
  | session_does_not_exist              \<comment> \<open>\<^verbatim>\<open>errors.New("session does not exist")\<close>\<close>
  | invalid_session_key                 \<comment> \<open>\<^verbatim>\<open>errors.New("invalid session key")\<close>\<close>
  | failed_to_pop_entity                \<comment> \<open>\<^verbatim>\<open>errors.New("failed to pop entity")\<close>\<close>
  | refresh_ErrorInvalidToken
  | refresh_ErrorInvalidUserID
  | refresh_ErrorInvalidClientID
  | key_ErrorNoKeys
  | db_ErrorCannotDecryptKeys
  | unable_to_cast_to_PrivateKeySet
  | must_provide_at_least_one_key_secret
  | expected_32_byte_secret nat         \<comment> \<open>\<^verbatim>\<open>"key secret %d: expected 32-byte secret"\<close>\<close>
  | user_ErrorInvalidID
  | user_ErrorDuplicateID
  | user_ErrorInvalidEmail
  | user_ErrorDuplicateEmail
  | user_ErrorNotFound
  | client_ErrorNotFound
  | bcrypt_Error bcrypt_error
  | library_error string                \<comment> \<open>any other error of a library call\<close>

subsection \<open>The etcd keys API\<close>

text \<open>
  The key space of etcd (keys API v2) is a tree: a node is a directory or holds a value,
  which is a string. The key space is the map from the path of a node to the node, with
  the two fields of \<^verbatim>\<open>etcdclient.Node\<close> that the repositories read. A Go string is a
  sequence of bytes: the value is a \<open>string\<close> where a repository writes JSON text and a
  \<open>bytes\<close> where it writes \<^verbatim>\<open>string(v)\<close> of a byte slice, so \<open>'c\<close> is \<open>char\<close> or \<open>8 word\<close>.

  \<open>path_ancestors p\<close> lists the paths of the nodes above \<open>p\<close>: the proper prefixes of
  \<open>p\<close> that end before a slash. etcd creates the directories above a node that it
  creates, and refuses to walk through a node that holds a value.
\<close>

record 'c Node =
  n_Dir :: bool
  n_Value :: "'c list"

type_synonym 'c etcd = "string \<rightharpoonup> 'c Node"

fun path_prefixes :: "string \<Rightarrow> string \<Rightarrow> string list" where
  "path_prefixes pre [] = []"
| "path_prefixes pre (c # cs) =
     (if c = CHR ''/''
      then (case pre of [] \<Rightarrow> path_prefixes (pre @ [c]) cs | _ # _ \<Rightarrow> pre # path_prefixes (pre @ [c]) cs)
      else path_prefixes (pre @ [c]) cs)"

definition path_ancestors :: "string \<Rightarrow> string list" where
  "path_ancestors p = path_prefixes [] p"

definition under_a_value :: "'c etcd \<Rightarrow> string \<Rightarrow> bool" where
  \<comment> \<open>a node above \<open>p\<close> holds a value\<close>
  "under_a_value st p =
     list_ex (\<lambda>a. case st a of None \<Rightarrow> False | Some n \<Rightarrow> \<not> n_Dir n) (path_ancestors p)"

definition etcd_missing :: "'c etcd \<Rightarrow> string \<Rightarrow> error" where
  \<comment> \<open>the error of the walk to a node that is not there\<close>
  "etcd_missing st p =
     EtcdError (if under_a_value st p then ErrorCodeNotDir else ErrorCodeKeyNotFound)"

definition etcd_mkdirs :: "'c etcd \<Rightarrow> string \<Rightarrow> 'c etcd" where
  \<comment> \<open>the directories above \<open>p\<close> that are missing\<close>
  "etcd_mkdirs st p =
     fold (\<lambda>a s. case s a of None \<Rightarrow> s(a \<mapsto> \<lparr>n_Dir = True, n_Value = []\<rparr>) | Some n \<Rightarrow> s)
       (path_ancestors p) st"

text \<open>
  The operations are the ones the repositories call. \<^verbatim>\<open>Get\<close> returns the response with
  its node (\<open>None\<close> is the nil node, which the repositories test for); the value of the
  node comes to the client in a JSON reply, and \<open>reply\<close> is what that transport makes of
  the stored value: Go's JSON encoder replaces every byte that is not part of valid
  UTF-8 by U+FFFD. \<^verbatim>\<open>Create\<close> is \<^verbatim>\<open>Set\<close> with \<^verbatim>\<open>PrevNoExist\<close>; \<^verbatim>\<open>Set\<close> with \<^verbatim>\<open>PrevExist\<close> only
  asks that the node exists and never looks at its value; a directory cannot be set to a
  value or deleted by these calls. A node's TTL is not modelled: the properties below
  hold at every state of the key space, whichever nodes etcd has already expired.
\<close>

definition kAPI_Get :: "('c list \<Rightarrow> 'c list) \<Rightarrow> 'c etcd \<Rightarrow> string \<Rightarrow> error + 'c Node option" where
  "kAPI_Get reply st p =
     (case st p of
        None \<Rightarrow> Inl (etcd_missing st p)
      | Some n \<Rightarrow> Inr (Some (n\<lparr>n_Value := reply (n_Value n)\<rparr>)))"

definition kAPI_Create :: "'c etcd \<Rightarrow> string \<Rightarrow> 'c list \<Rightarrow> error + 'c etcd" where
  "kAPI_Create st p v =
     (case st p of
        Some n \<Rightarrow> Inl (EtcdError ErrorCodeNodeExist)
      | None \<Rightarrow>
          if under_a_value st p then Inl (EtcdError ErrorCodeNotDir)
          else Inr ((etcd_mkdirs st p)(p \<mapsto> \<lparr>n_Dir = False, n_Value = v\<rparr>)))"

definition kAPI_Set_PrevNoExist :: "'c etcd \<Rightarrow> string \<Rightarrow> 'c list \<Rightarrow> error + 'c etcd" where
  "kAPI_Set_PrevNoExist st p v = kAPI_Create st p v"

definition kAPI_Set_PrevExist :: "'c etcd \<Rightarrow> string \<Rightarrow> 'c list \<Rightarrow> error + 'c etcd" where
  "kAPI_Set_PrevExist st p v =
     (case st p of
        None \<Rightarrow> Inl (etcd_missing st p)
      | Some n \<Rightarrow>
          if n_Dir n then Inl (EtcdError ErrorCodeNotFile)
          else Inr (st(p \<mapsto> \<lparr>n_Dir = False, n_Value = v\<rparr>)))"

definition kAPI_Set_PrevIgnore :: "'c etcd \<Rightarrow> string \<Rightarrow> 'c list \<Rightarrow> error + 'c etcd" where
  "kAPI_Set_PrevIgnore st p v =
     (case st p of
        None \<Rightarrow> kAPI_Create st p v
      | Some n \<Rightarrow>
          if n_Dir n then Inl (EtcdError ErrorCodeNotFile)
          else Inr (st(p \<mapsto> \<lparr>n_Dir = False, n_Value = v\<rparr>)))"

definition kAPI_Delete :: "'c etcd \<Rightarrow> string \<Rightarrow> error + 'c etcd" where
  "kAPI_Delete st p =
     (case st p of
        None \<Rightarrow> Inl (etcd_missing st p)
      | Some n \<Rightarrow>
          if n_Dir n then Inl (EtcdError ErrorCodeNotFile)
          else Inr (st(p := None)))"

text \<open>
  The JSON library at a model struct \<open>'m\<close>, \<^verbatim>\<open>json.Marshal\<close> and \<^verbatim>\<open>json.Unmarshal\<close>, next
  to the transport of the reply at JSON text. \<open>json_round_trip js m\<close> says that \<open>m\<close>
  comes back from the key space as it was written: its text is made, and the text as
  the reply carries it parses to \<open>m\<close>. (Go's encoder writes valid UTF-8, which the reply
  keeps; a string field that is not valid UTF-8 does not come back as it was.)
\<close>

record 'm etcd_json =
  Marshal :: "'m \<Rightarrow> error + string"
  Unmarshal :: "string \<Rightarrow> error + 'm"
  reply_text :: "string \<Rightarrow> string"

definition json_round_trip :: "'m etcd_json \<Rightarrow> 'm \<Rightarrow> bool" where
  "json_round_trip js m =
     (case Marshal js m of Inl err \<Rightarrow> False | Inr j \<Rightarrow> Unmarshal js (reply_text js j) = Inr m)"

subsection \<open>Time\<close>

definition time_Unix :: "time \<Rightarrow> int" where
  \<comment> \<open>\<^verbatim>\<open>t.Unix()\<close>: whole seconds since the epoch\<close>
  "time_Unix t = t div 1000000000"

definition time_of_Unix :: "int \<Rightarrow> time" where
  \<comment> \<open>\<^verbatim>\<open>time.Unix(sec, 0)\<close>\<close>
  "time_of_Unix s = s * 1000000000"

definition zero_Time :: time where
  \<comment> \<open>\<^verbatim>\<open>time.Time{}\<close>: January 1, year 1, 00:00:00 UTC\<close>
  "zero_Time = - 62135596800 * 1000000000"

definition IsZero :: "time \<Rightarrow> bool" where
  "IsZero t = (t = zero_Time)"

definition bson_time :: "time \<Rightarrow> time" where
  \<comment> \<open>a time as BSON stores it and mgo reads it back: mgo writes
      \<^verbatim>\<open>t.Unix()*1000 + t.Nanosecond()/1e6\<close> milliseconds\<close>
  "bson_time t = (t div 1000000) * 1000000"

subsection \<open>Session keys on etcd (\<^verbatim>\<open>db/etcd/session.go\<close>)\<close>

record SessionKey =
  sk_Key :: string
  sk_SessionID :: string

record etcd_sessionKeyModel =
  e_Key :: string
  e_SessionID :: string
  e_ExpiresAt :: int       \<comment> \<open>\<^verbatim>\<open>int64\<close>, Unix seconds\<close>
  e_Stale :: bool

text \<open>
  Every function takes \<open>key\<close>, the repository's method \<^verbatim>\<open>r.key(id)\<close>, which is
  \<^verbatim>\<open>path.Join(r.driver.directory, SessionKeyDirectory, id)\<close>; \<open>js\<close>, the JSON library at
  \<^verbatim>\<open>sessionKeyModel\<close>; and \<open>now\<close>, the reading of \<^verbatim>\<open>r.clock.Now()\<close>. \<^verbatim>\<open>Push\<close> also takes
  \<open>seconds\<close>, the conversion \<^verbatim>\<open>int64(exp.Seconds())\<close>, which goes through a \<^verbatim>\<open>float64\<close>.
\<close>

definition etcd_sessionKeyRepo_get ::
  "(string \<Rightarrow> string) \<Rightarrow> etcd_sessionKeyModel etcd_json \<Rightarrow> char etcd \<Rightarrow> string
     \<Rightarrow> error + etcd_sessionKeyModel" where
  "etcd_sessionKeyRepo_get key js st k =
     (case kAPI_Get (reply_text js) st (key k) of
        Inl err \<Rightarrow> Inl err
      | Inr None \<Rightarrow> Inl session_does_not_exist
      | Inr (Some node) \<Rightarrow>
          (case Unmarshal js (n_Value node) of
             Inl err \<Rightarrow> Inl err
           | Inr c \<Rightarrow> Inr c))"

definition etcd_sessionKeyRepo_Push ::
  "(string \<Rightarrow> string) \<Rightarrow> etcd_sessionKeyModel etcd_json \<Rightarrow> (Duration \<Rightarrow> int) \<Rightarrow> time \<Rightarrow> char etcd
     \<Rightarrow> SessionKey \<Rightarrow> Duration \<Rightarrow> error + char etcd" where
  "etcd_sessionKeyRepo_Push key js seconds now st sk exp =
     (let skm = \<lparr>e_Key = sk_Key sk, e_SessionID = sk_SessionID sk,
                 e_ExpiresAt = time_Unix now + seconds exp, e_Stale = False\<rparr>
      in case Marshal js skm of
           Inl err \<Rightarrow> Inl err
         | Inr b \<Rightarrow> kAPI_Set_PrevNoExist st (key (e_Key skm)) b)"

text \<open>
  \<^verbatim>\<open>Pop\<close> makes two calls of the keys API. \<open>etcd_sessionKeyRepo_Pop_get\<close> is the first
  half of the function: the read and the test of the model read. \<open>etcd_sessionKeyRepo_Pop_set\<close>
  is the second half: the write of the model with \<^verbatim>\<open>Stale\<close> set, under \<^verbatim>\<open>PrevExist\<close>.
\<close>

definition etcd_sessionKeyRepo_Pop_get ::
  "(string \<Rightarrow> string) \<Rightarrow> etcd_sessionKeyModel etcd_json \<Rightarrow> time \<Rightarrow> char etcd \<Rightarrow> string
     \<Rightarrow> error + etcd_sessionKeyModel" where
  "etcd_sessionKeyRepo_Pop_get key js now st k =
     (case etcd_sessionKeyRepo_get key js st k of
        Inl err \<Rightarrow> Inl err
      | Inr skm \<Rightarrow>
          if e_Stale skm \<or> e_ExpiresAt skm < time_Unix now then Inl invalid_session_key
          else Inr skm)"

definition etcd_sessionKeyRepo_Pop_set ::
  "(string \<Rightarrow> string) \<Rightarrow> etcd_sessionKeyModel etcd_json \<Rightarrow> char etcd \<Rightarrow> etcd_sessionKeyModel
     \<Rightarrow> error + string \<times> char etcd" where
  "etcd_sessionKeyRepo_Pop_set key js st skm =
     (case Marshal js (skm\<lparr>e_Stale := True\<rparr>) of
        Inl err \<Rightarrow> Inl err
      | Inr b \<Rightarrow>
          (case kAPI_Set_PrevExist st (key (e_Key skm)) b of
             Inl err \<Rightarrow> Inl err
           | Inr st' \<Rightarrow> Inr (e_SessionID skm, st')))"


text \<open>
  Callers that run \<^verbatim>\<open>Pop\<close> at the same time share the key space, and each call of the
  keys API is one atomic step of etcd. A caller is at one of three points: before its
  \<^verbatim>\<open>Get\<close>, between its \<^verbatim>\<open>Get\<close> and its \<^verbatim>\<open>Set\<close> (holding the model it read), or returned.
  A schedule is the list of the callers' indices in the order their steps are taken.
\<close>

datatype etcd_Pop_caller =
    Calling string
  | Holding etcd_sessionKeyModel
  | Returned "error + string"

definition etcd_Pop_step ::
  "(string \<Rightarrow> string) \<Rightarrow> etcd_sessionKeyModel etcd_json \<Rightarrow> time \<Rightarrow> nat
     \<Rightarrow> char etcd \<times> etcd_Pop_caller list
     \<Rightarrow> char etcd \<times> etcd_Pop_caller list" where
  "etcd_Pop_step key js now i cfg =
     (let st = fst cfg; cs = snd cfg in
      if length cs \<le> i then cfg
      else case cs ! i of
          Calling k \<Rightarrow>
            (case etcd_sessionKeyRepo_Pop_get key js now st k of
               Inl err \<Rightarrow> (st, cs[i := Returned (Inl err)])
             | Inr skm \<Rightarrow> (st, cs[i := Holding skm]))
        | Holding skm \<Rightarrow>
            (case etcd_sessionKeyRepo_Pop_set key js st skm of
               Inl err \<Rightarrow> (st, cs[i := Returned (Inl err)])
             | Inr r \<Rightarrow> (snd r, cs[i := Returned (Inr (fst r))]))
        | Returned r \<Rightarrow> cfg)"

fun etcd_Pop_run ::
  "(string \<Rightarrow> string) \<Rightarrow> etcd_sessionKeyModel etcd_json \<Rightarrow> time \<Rightarrow> nat list
     \<Rightarrow> char etcd \<times> etcd_Pop_caller list
     \<Rightarrow> char etcd \<times> etcd_Pop_caller list" where
  "etcd_Pop_run key js now [] cfg = cfg"
| "etcd_Pop_run key js now (i # sched) cfg = etcd_Pop_run key js now sched (etcd_Pop_step key js now i cfg)"

subsection \<open>Session keys on MongoDB (\<^verbatim>\<open>db/mongodb\<close>, session repositories)\<close>





fun mgo_Update :: "('d \<Rightarrow> bool) \<Rightarrow> 'd \<Rightarrow> 'd list \<Rightarrow> error + 'd list" where
  "mgo_Update sel doc [] = Inl mgo_ErrNotFound"
| "mgo_Update sel doc (d # ds) =
     (if sel d then Inr (doc # ds)
      else case mgo_Update sel doc ds of Inl err \<Rightarrow> Inl err | Inr ds' \<Rightarrow> Inr (d # ds'))"

definition mgo_Find_One :: "('d \<Rightarrow> bool) \<Rightarrow> 'd list \<Rightarrow> error + 'd" where
  "mgo_Find_One sel ds = (case find sel ds of None \<Rightarrow> Inl mgo_ErrNotFound | Some d \<Rightarrow> Inr d)"



subsection \<open>Library parameters of the refresh-token and client repositories\<close>

text \<open>
  \<^verbatim>\<open>bcrypt.GenerateFromPassword\<close> (at the cost the caller fixes) and
  \<^verbatim>\<open>bcrypt.CompareHashAndPassword\<close>, whose result is \<^verbatim>\<open>nil\<close> (\<open>None\<close>) or an error;
  \<^verbatim>\<open>base64.URLEncoding\<close>; and, for MongoDB, the \<^verbatim>\<open>bson.ObjectId\<close> functions.
\<close>

record bcrypt =
  GenerateFromPassword :: "bytes \<Rightarrow> error + bytes"
  CompareHashAndPassword :: "bytes \<Rightarrow> bytes \<Rightarrow> bcrypt_error option"

record base64 =
  EncodeToString :: "bytes \<Rightarrow> string"
  DecodeString :: "string \<Rightarrow> error + bytes"

record 'oid bson =
  Hex :: "'oid \<Rightarrow> string"
  IsObjectIdHex :: "string \<Rightarrow> bool"
  ObjectIdHex :: "string \<Rightarrow> 'oid"

subsection \<open>Refresh tokens on etcd (\<^verbatim>\<open>db/etcd/refresh.go\<close>)\<close>

text \<open>
  \<open>delim\<close> is \<^verbatim>\<open>refresh.TokenDelimer\<close>, a one-character string declared in package
  \<^verbatim>\<open>refresh\<close>, outside the sources. \<open>SplitN_2 delim s\<close> gives the two parts of
  \<^verbatim>\<open>strings.SplitN(s, delim, 2)\<close> when there are two: \<open>s\<close> cut at the first delimiter.
\<close>

fun SplitN_2 :: "char \<Rightarrow> string \<Rightarrow> (string \<times> string) option" where
  "SplitN_2 delim [] = None"
| "SplitN_2 delim (c # s) =
     (if c = delim then Some ([], s)
      else case SplitN_2 delim s of None \<Rightarrow> None | Some p \<Rightarrow> Some (c # fst p, snd p))"

record etcd_refreshTokenModel =
  r_ID :: string
  r_PayloadHash :: bytes
  r_UserID :: string
  r_ClientID :: string

definition etcd_buildToken :: "base64 \<Rightarrow> char \<Rightarrow> string \<Rightarrow> bytes \<Rightarrow> string" where
  "etcd_buildToken b64 delim tokenID tokenPayload = tokenID @ [delim] @ EncodeToString b64 tokenPayload"

definition etcd_parseToken :: "base64 \<Rightarrow> char \<Rightarrow> string \<Rightarrow> error + string \<times> bytes" where
  "etcd_parseToken b64 delim token =
     (case SplitN_2 delim token of
        None \<Rightarrow> Inl refresh_ErrorInvalidToken
      | Some parts \<Rightarrow>
          (case DecodeString b64 (snd parts) of
             Inl err \<Rightarrow> Inl refresh_ErrorInvalidToken
           | Inr tokenPayload \<Rightarrow> Inr (fst parts, tokenPayload)))"

definition checkTokenPayload :: "bcrypt \<Rightarrow> bytes \<Rightarrow> bytes \<Rightarrow> error option" where
  \<comment> \<open>the same function in both packages\<close>
  "checkTokenPayload bc payloadHash payload =
     (case CompareHashAndPassword bc payloadHash payload of
        None \<Rightarrow> None
      | Some ErrMismatchedHashAndPassword \<Rightarrow> Some refresh_ErrorInvalidToken
      | Some err \<Rightarrow> Some (bcrypt_Error err))"

definition etcd_refreshTokenRepo_get ::
  "(string \<Rightarrow> string) \<Rightarrow> etcd_refreshTokenModel etcd_json \<Rightarrow> char etcd \<Rightarrow> string
     \<Rightarrow> error + etcd_refreshTokenModel" where
  "etcd_refreshTokenRepo_get key js st oid =
     (case kAPI_Get (reply_text js) st (key oid) of
        Inl (EtcdError ErrorCodeKeyNotFound) \<Rightarrow> Inl refresh_ErrorInvalidToken
      | Inl err \<Rightarrow> Inl err
      | Inr None \<Rightarrow> Inl refresh_ErrorInvalidToken
      | Inr (Some node) \<Rightarrow>
          (case Unmarshal js (n_Value node) of
             Inl err \<Rightarrow> Inl err
           | Inr c \<Rightarrow> Inr c))"

definition etcd_refreshTokenRepo_insert ::
  "(string \<Rightarrow> string) \<Rightarrow> etcd_refreshTokenModel etcd_json \<Rightarrow> char etcd \<Rightarrow> etcd_refreshTokenModel
     \<Rightarrow> error + char etcd" where
  "etcd_refreshTokenRepo_insert key js st rtm =
     (case Marshal js rtm of
        Inl err \<Rightarrow> Inl err
      | Inr b \<Rightarrow> kAPI_Create st (key (r_ID rtm)) b)"

text \<open>
  \<^verbatim>\<open>Create\<close> reads two things from its environment: \<open>generated\<close>, the result of
  \<^verbatim>\<open>r.tokenGenerator.Generate()\<close>, and \<open>newId\<close>, the result of \<^verbatim>\<open>NewRefreshTokenId()\<close>
  (of \<^verbatim>\<open>bson.NewObjectId()\<close> on MongoDB).
\<close>

definition etcd_refreshTokenRepo_Create ::
  "bcrypt \<Rightarrow> base64 \<Rightarrow> char \<Rightarrow> (string \<Rightarrow> string) \<Rightarrow> etcd_refreshTokenModel etcd_json
     \<Rightarrow> error + bytes \<Rightarrow> string \<Rightarrow> char etcd \<Rightarrow> string \<Rightarrow> string
     \<Rightarrow> error + string \<times> char etcd" where
  "etcd_refreshTokenRepo_Create bc b64 delim key js generated newId st userID clientID =
     (if userID = [] then Inl refresh_ErrorInvalidUserID
      else if clientID = [] then Inl refresh_ErrorInvalidClientID
      else case generated of
          Inl err \<Rightarrow> Inl err
        | Inr tokenPayload \<Rightarrow>
            (case GenerateFromPassword bc tokenPayload of
               Inl err \<Rightarrow> Inl err
             | Inr payloadHash \<Rightarrow>
                 (let record = \<lparr>r_ID = newId, r_PayloadHash = payloadHash,
                                r_UserID = userID, r_ClientID = clientID\<rparr>
                  in case etcd_refreshTokenRepo_insert key js st record of
                       Inl err \<Rightarrow> Inl err
                     | Inr st' \<Rightarrow> Inr (etcd_buildToken b64 delim (r_ID record) tokenPayload, st'))))"

definition etcd_refreshTokenRepo_Verify ::
  "bcrypt \<Rightarrow> base64 \<Rightarrow> char \<Rightarrow> (string \<Rightarrow> string) \<Rightarrow> etcd_refreshTokenModel etcd_json
     \<Rightarrow> char etcd \<Rightarrow> string \<Rightarrow> string \<Rightarrow> error + string" where
  "etcd_refreshTokenRepo_Verify bc b64 delim key js st clientID token =
     (case etcd_parseToken b64 delim token of
        Inl err \<Rightarrow> Inl err
      | Inr parsed \<Rightarrow>
          (case etcd_refreshTokenRepo_get key js st (fst parsed) of
             Inl err \<Rightarrow> Inl err
           | Inr record \<Rightarrow>
               if r_ClientID record \<noteq> clientID then Inl refresh_ErrorInvalidClientID
               else (case checkTokenPayload bc (r_PayloadHash record) (snd parsed) of
                       Some err \<Rightarrow> Inl err
                     | None \<Rightarrow> Inr (r_UserID record))))"

definition etcd_refreshTokenRepo_Revoke ::
  "bcrypt \<Rightarrow> base64 \<Rightarrow> char \<Rightarrow> (string \<Rightarrow> string) \<Rightarrow> etcd_refreshTokenModel etcd_json
     \<Rightarrow> char etcd \<Rightarrow> string \<Rightarrow> string \<Rightarrow> error + char etcd" where
  "etcd_refreshTokenRepo_Revoke bc b64 delim key js st userID token =
     (case etcd_parseToken b64 delim token of
        Inl err \<Rightarrow> Inl err
      | Inr parsed \<Rightarrow>
          (case etcd_refreshTokenRepo_get key js st (fst parsed) of
             Inl err \<Rightarrow> Inl err
           | Inr record \<Rightarrow>
               if r_UserID record \<noteq> userID then Inl refresh_ErrorInvalidUserID
               else (case checkTokenPayload bc (r_PayloadHash record) (snd parsed) of
                       Some err \<Rightarrow> Inl err
                     | None \<Rightarrow> kAPI_Delete st (key (r_ID record)))))"

subsection \<open>Refresh tokens on MongoDB (\<^verbatim>\<open>db/mongodb\<close>, refresh repository)\<close>

text \<open>
  The \<^verbatim>\<open>RefreshToken\<close> collection is read and written by \<^verbatim>\<open>_id\<close> only, so it is a map
  from the \<^verbatim>\<open>_id\<close> to the document. \<^verbatim>\<open>Insert\<close> fails on an \<^verbatim>\<open>_id\<close> in use,
  \<^verbatim>\<open>FindId(id).One\<close> and \<^verbatim>\<open>RemoveId\<close> fail with \<^verbatim>\<open>mgo.ErrNotFound\<close> on a missing one.
\<close>

type_synonym ('k, 'd) mgo_by_id = "'k \<rightharpoonup> 'd"

definition mgo_Insert :: "('k, 'd) mgo_by_id \<Rightarrow> 'k \<Rightarrow> 'd \<Rightarrow> error + ('k, 'd) mgo_by_id" where
  "mgo_Insert cc oid doc = (case cc oid of Some _ \<Rightarrow> Inl mgo_DuplicateKey | None \<Rightarrow> Inr (cc(oid \<mapsto> doc)))"

definition mgo_FindId_One :: "('k, 'd) mgo_by_id \<Rightarrow> 'k \<Rightarrow> error + 'd" where
  "mgo_FindId_One cc oid = (case cc oid of None \<Rightarrow> Inl mgo_ErrNotFound | Some doc \<Rightarrow> Inr doc)"

definition mgo_RemoveId :: "('k, 'd) mgo_by_id \<Rightarrow> 'k \<Rightarrow> error + ('k, 'd) mgo_by_id" where
  "mgo_RemoveId cc oid = (case cc oid of None \<Rightarrow> Inl mgo_ErrNotFound | Some _ \<Rightarrow> Inr (cc(oid := None)))"

definition mgo_UpdateId :: "('k, 'd) mgo_by_id \<Rightarrow> 'k \<Rightarrow> 'd \<Rightarrow> error + ('k, 'd) mgo_by_id" where
  "mgo_UpdateId cc oid doc = (case cc oid of None \<Rightarrow> Inl mgo_ErrNotFound | Some _ \<Rightarrow> Inr (cc(oid \<mapsto> doc)))"

record 'oid mongo_refreshTokenModel =
  mr_ID :: 'oid
  mr_PayloadHash :: bytes
  mr_UserID :: string
  mr_ClientID :: string

definition mongo_buildToken :: "'oid bson \<Rightarrow> base64 \<Rightarrow> char \<Rightarrow> 'oid \<Rightarrow> bytes \<Rightarrow> string" where
  "mongo_buildToken bs b64 delim tokenID tokenPayload =
     Hex bs tokenID @ [delim] @ EncodeToString b64 tokenPayload"

definition mongo_parseToken :: "'oid bson \<Rightarrow> base64 \<Rightarrow> char \<Rightarrow> string \<Rightarrow> error + 'oid \<times> bytes" where
  "mongo_parseToken bs b64 delim token =
     (case SplitN_2 delim token of
        None \<Rightarrow> Inl refresh_ErrorInvalidToken
      | Some parts \<Rightarrow>
          if \<not> IsObjectIdHex bs (fst parts) then Inl refresh_ErrorInvalidToken
          else (case DecodeString b64 (snd parts) of
                  Inl err \<Rightarrow> Inl refresh_ErrorInvalidToken
                | Inr tokenPayload \<Rightarrow> Inr (ObjectIdHex bs (fst parts), tokenPayload)))"

text \<open>
  On MongoDB \<^verbatim>\<open>Create\<close> answers a failed \<^verbatim>\<open>Insert\<close> with \<^verbatim>\<open>return "", nil\<close>: the empty
  token and no error.
\<close>

definition mongo_refreshTokenRepo_Create ::
  "bcrypt \<Rightarrow> 'oid bson \<Rightarrow> base64 \<Rightarrow> char \<Rightarrow> error + bytes \<Rightarrow> 'oid
     \<Rightarrow> ('oid, 'oid mongo_refreshTokenModel) mgo_by_id \<Rightarrow> string \<Rightarrow> string
     \<Rightarrow> error + string \<times> ('oid, 'oid mongo_refreshTokenModel) mgo_by_id" where
  "mongo_refreshTokenRepo_Create bc bs b64 delim generated newId cc userID clientID =
     (if userID = [] then Inl refresh_ErrorInvalidUserID
      else if clientID = [] then Inl refresh_ErrorInvalidClientID
      else case generated of
          Inl err \<Rightarrow> Inl err
        | Inr tokenPayload \<Rightarrow>
            (case GenerateFromPassword bc tokenPayload of
               Inl err \<Rightarrow> Inl err
             | Inr payloadHash \<Rightarrow>
                 (let tokenID = newId;
                      rtoken = \<lparr>mr_ID = tokenID, mr_PayloadHash = payloadHash,
                                mr_UserID = userID, mr_ClientID = clientID\<rparr>
                  in case mgo_Insert cc (mr_ID rtoken) rtoken of
                       Inl err \<Rightarrow> Inr ([], cc)
                     | Inr cc' \<Rightarrow> Inr (mongo_buildToken bs b64 delim tokenID tokenPayload, cc'))))"

definition mongo_refreshTokenRepo_Verify ::
  "bcrypt \<Rightarrow> 'oid bson \<Rightarrow> base64 \<Rightarrow> char \<Rightarrow> ('oid, 'oid mongo_refreshTokenModel) mgo_by_id
     \<Rightarrow> string \<Rightarrow> string \<Rightarrow> error + string" where
  "mongo_refreshTokenRepo_Verify bc bs b64 delim cc clientID token =
     (case mongo_parseToken bs b64 delim token of
        Inl err \<Rightarrow> Inl err
      | Inr parsed \<Rightarrow>
          (case mgo_FindId_One cc (fst parsed) of
             Inl err \<Rightarrow> Inl refresh_ErrorInvalidToken
           | Inr record \<Rightarrow>
               if mr_ClientID record \<noteq> clientID then Inl refresh_ErrorInvalidClientID
               else (case checkTokenPayload bc (mr_PayloadHash record) (snd parsed) of
                       Some err \<Rightarrow> Inl err
                     | None \<Rightarrow> Inr (mr_UserID record))))"

definition mongo_refreshTokenRepo_Revoke ::
  "bcrypt \<Rightarrow> 'oid bson \<Rightarrow> base64 \<Rightarrow> char \<Rightarrow> ('oid, 'oid mongo_refreshTokenModel) mgo_by_id
     \<Rightarrow> string \<Rightarrow> string \<Rightarrow> error + ('oid, 'oid mongo_refreshTokenModel) mgo_by_id" where
  "mongo_refreshTokenRepo_Revoke bc bs b64 delim cc userID token =
     (case mongo_parseToken bs b64 delim token of
        Inl err \<Rightarrow> Inl err
      | Inr parsed \<Rightarrow>
          (case mgo_FindId_One cc (fst parsed) of
             Inl err \<Rightarrow> Inl refresh_ErrorInvalidToken
           | Inr record \<Rightarrow>
               if mr_UserID record \<noteq> userID then Inl refresh_ErrorInvalidUserID
               else (case checkTokenPayload bc (mr_PayloadHash record) (snd parsed) of
                       Some err \<Rightarrow> Inl err
                     | None \<Rightarrow> mgo_RemoveId cc (mr_ID record))))"

subsection \<open>Private key sets (\<^verbatim>\<open>db/etcd/key.go\<close> and the MongoDB key repository)\<close>

text \<open>
  \<^verbatim>\<open>key.PrivateKey\<close> and \<^verbatim>\<open>key.PrivateKeySet\<close> belong to go-oidc: a key is its id and
  an RSA key (of a type \<open>'rsa\<close>), a set is what \<^verbatim>\<open>key.NewPrivateKeySet(keys, exp)\<close> is
  given. \<^verbatim>\<open>key.KeySet\<close> is an interface: a value of it is a \<^verbatim>\<open>*PrivateKeySet\<close> or of
  another type. The library functions are parameters: the two ciphers of
  \<^verbatim>\<open>pkg/crypto\<close> (plaintext or ciphertext first, then the secret), the PKCS1 encoder
  and parser of x509, and the JSON encoder and parser at \<^verbatim>\<open>privateKeySetModel\<close>.
\<close>

record 'rsa PrivateKey =
  KeyID :: string
  PrivateKey :: 'rsa

record 'rsa PrivateKeySet =
  keys :: "'rsa PrivateKey list"
  expiresAt :: time

datatype 'rsa KeySet = a_PrivateKeySet "'rsa PrivateKeySet" | another_KeySet

record privateKeyModel =
  pkm_ID :: string
  pkm_PKCS1 :: bytes

record privateKeySetModel =
  pksm_Keys :: "privateKeyModel list"
  pksm_ExpiresAt :: time

record 'rsa keylibs =
  Encrypt :: "bytes \<Rightarrow> bytes \<Rightarrow> error + bytes"
  Decrypt :: "bytes \<Rightarrow> bytes \<Rightarrow> error + bytes"
  AESEncrypt :: "bytes \<Rightarrow> bytes \<Rightarrow> error + bytes"
  AESDecrypt :: "bytes \<Rightarrow> bytes \<Rightarrow> error + bytes"
  MarshalPKCS1PrivateKey :: "'rsa \<Rightarrow> bytes"
  ParsePKCS1PrivateKey :: "bytes \<Rightarrow> error + 'rsa"
  json_Marshal :: "privateKeySetModel \<Rightarrow> error + bytes"
  json_Unmarshal :: "bytes \<Rightarrow> error + privateKeySetModel"

definition newPrivateKeySetModel :: "'rsa keylibs \<Rightarrow> 'rsa PrivateKeySet \<Rightarrow> privateKeySetModel" where
  "newPrivateKeySetModel lib pks =
     \<lparr>pksm_Keys = map (\<lambda>pkey. \<lparr>pkm_ID = KeyID pkey,
                                 pkm_PKCS1 = MarshalPKCS1PrivateKey lib (PrivateKey pkey)\<rparr>) (keys pks),
      pksm_ExpiresAt = expiresAt pks\<rparr>"

definition privateKeyModel_PrivateKey :: "'rsa keylibs \<Rightarrow> privateKeyModel \<Rightarrow> error + 'rsa PrivateKey" where
  "privateKeyModel_PrivateKey lib m =
     (case ParsePKCS1PrivateKey lib (pkm_PKCS1 m) of
        Inl err \<Rightarrow> Inl err
      | Inr d \<Rightarrow> Inr \<lparr>KeyID = pkm_ID m, PrivateKey = d\<rparr>)"

fun PrivateKeySet_loop :: "'rsa keylibs \<Rightarrow> privateKeyModel list \<Rightarrow> error + 'rsa PrivateKey list" where
  "PrivateKeySet_loop lib [] = Inr []"
| "PrivateKeySet_loop lib (pkm # rest) =
     (case privateKeyModel_PrivateKey lib pkm of
        Inl err \<Rightarrow> Inl err
      | Inr pk \<Rightarrow>
          (case PrivateKeySet_loop lib rest of
             Inl err \<Rightarrow> Inl err
           | Inr pks \<Rightarrow> Inr (pk # pks)))"

definition privateKeySetModel_PrivateKeySet ::
  "'rsa keylibs \<Rightarrow> privateKeySetModel \<Rightarrow> error + 'rsa PrivateKeySet" where
  "privateKeySetModel_PrivateKeySet lib m =
     (case PrivateKeySet_loop lib (pksm_Keys m) of
        Inl err \<Rightarrow> Inl err
      | Inr ks \<Rightarrow> Inr \<lparr>keys = ks, expiresAt = pksm_ExpiresAt m\<rparr>)"

text \<open>
  The repository struct, \<^verbatim>\<open>PrivateKeySetRepo\<close> on etcd and \<^verbatim>\<open>mongoPrivateKeySetRepo\<close> on
  MongoDB, has the same fields in both packages; the record leaves the driver out.
\<close>

record PrivateKeySetRepo =
  useOldFormat :: bool
  secrets :: "bytes list"

fun check_secrets :: "nat \<Rightarrow> bytes list \<Rightarrow> error option" where
  \<comment> \<open>\<^verbatim>\<open>for i, secret := range secrets\<close>, from index \<open>i\<close> on\<close>
  "check_secrets i [] = None"
| "check_secrets i (secret # rest) =
     (if length secret \<noteq> 32 then Some (expected_32_byte_secret i) else check_secrets (Suc i) rest)"

definition etcd_NewPrivateKeySetRepo :: "bool \<Rightarrow> bytes list \<Rightarrow> error + PrivateKeySetRepo" where
  "etcd_NewPrivateKeySetRepo useOld secs =
     (if length secs = 0 then Inl must_provide_at_least_one_key_secret
      else case check_secrets 0 secs of
             Some err \<Rightarrow> Inl err
           | None \<Rightarrow> Inr \<lparr>useOldFormat = useOld, secrets = secs\<rparr>)"

definition mongo_NewPrivateKeySetRepo :: "bool \<Rightarrow> bytes list \<Rightarrow> error + PrivateKeySetRepo" where
  \<comment> \<open>\<^verbatim>\<open>MongoDBDriver.NewPrivateKeySetRepo\<close>: the struct literal sets \<^verbatim>\<open>driver\<close> and
      \<^verbatim>\<open>secrets\<close> only, so \<^verbatim>\<open>useOldFormat\<close> keeps its zero value\<close>
  "mongo_NewPrivateKeySetRepo useOldFormatKeySecrets secs =
     (case check_secrets 0 secs of
        Some err \<Rightarrow> Inl err
      | None \<Rightarrow> Inr \<lparr>useOldFormat = False, secrets = secs\<rparr>)"

datatype 'a go = Panic | Value 'a

definition active :: "PrivateKeySetRepo \<Rightarrow> bytes go" where
  \<comment> \<open>\<^verbatim>\<open>r.secrets[0]\<close>: a run-time panic on an empty list\<close>
  "active r = (case secrets r of [] \<Rightarrow> Panic | secret # _ \<Rightarrow> Value secret)"

text \<open>
  The part of \<^verbatim>\<open>Set\<close> after the old blob is dropped, the same in both packages: the
  cast, the model, the JSON text and the cipher under \<^verbatim>\<open>r.active()\<close>. Its result is
  the blob to store.
\<close>

definition Set_blob :: "'rsa keylibs \<Rightarrow> PrivateKeySetRepo \<Rightarrow> 'rsa KeySet \<Rightarrow> (error + bytes) go" where
  "Set_blob lib r ks =
     (case ks of
        another_KeySet \<Rightarrow> Value (Inl unable_to_cast_to_PrivateKeySet)
      | a_PrivateKeySet pks \<Rightarrow>
          (case json_Marshal lib (newPrivateKeySetModel lib pks) of
             Inl err \<Rightarrow> Value (Inl err)
           | Inr j \<Rightarrow>
               (case active r of
                  Panic \<Rightarrow> Panic
                | Value secret \<Rightarrow>
                    Value (if useOldFormat r then AESEncrypt lib j secret else Encrypt lib j secret))))"

text \<open>
  The loop of \<^verbatim>\<open>Get\<close> over \<^verbatim>\<open>r.secrets\<close>, the same in both packages. Its state is the
  pair of the variables \<^verbatim>\<open>pks\<close> (\<open>None\<close> is the nil pointer) and \<^verbatim>\<open>err\<close> (\<open>None\<close> is
  nil), which the loop assigns and the code after the loop reads. A \<^verbatim>\<open>continue\<close> goes
  on with the rest of the list, the \<^verbatim>\<open>break\<close> returns the state.
\<close>

fun Get_loop ::
  "'rsa keylibs \<Rightarrow> PrivateKeySetRepo \<Rightarrow> bytes \<Rightarrow> bytes list
     \<Rightarrow> 'rsa PrivateKeySet option \<times> error option \<Rightarrow> 'rsa PrivateKeySet option \<times> error option" where
  "Get_loop lib r v [] state = state"
| "Get_loop lib r v (secret # rest) state =
     (case (if useOldFormat r then AESDecrypt lib v secret else Decrypt lib v secret) of
        Inl err \<Rightarrow> Get_loop lib r v rest (fst state, Some err)
      | Inr j \<Rightarrow>
          (case json_Unmarshal lib j of
             Inl err \<Rightarrow> Get_loop lib r v rest (fst state, Some err)
           | Inr m \<Rightarrow>
               (case privateKeySetModel_PrivateKeySet lib m of
                  Inl err \<Rightarrow> Get_loop lib r v rest (None, Some err)
                | Inr pks \<Rightarrow> (Some pks, None))))"

definition Get_result :: "'rsa PrivateKeySet option \<times> error option \<Rightarrow> error + 'rsa PrivateKeySet option" where
  \<comment> \<open>the code after the loop; the key set returned is \<^verbatim>\<open>key.KeySet(pks)\<close>\<close>
  "Get_result state = (case snd state of Some err \<Rightarrow> Inl db_ErrorCannotDecryptKeys | None \<Rightarrow> Inr (fst state))"

text \<open>
  On etcd the blob is the value of the node \<^verbatim>\<open>r.path()\<close>, here \<open>path\<close>: \<^verbatim>\<open>Set\<close> writes
  \<^verbatim>\<open>string(v)\<close>, the bytes of the ciphertext as a string, and \<^verbatim>\<open>Get\<close> reads
  \<^verbatim>\<open>[]byte(resp.Node.Value)\<close>, the bytes of the string the reply carries; \<open>reply\<close> is
  that transport at bytes. \<^verbatim>\<open>Set\<close> deletes the node first and ignores the result, so
  the functions return the key space also next to an error.
\<close>

definition etcd_PrivateKeySetRepo_Set ::
  "'rsa keylibs \<Rightarrow> PrivateKeySetRepo \<Rightarrow> string \<Rightarrow> 8 word etcd \<Rightarrow> 'rsa KeySet
     \<Rightarrow> (error option \<times> 8 word etcd) go" where
  "etcd_PrivateKeySetRepo_Set lib r path st ks =
     (let st1 = (case kAPI_Delete st path of Inl err \<Rightarrow> st | Inr st' \<Rightarrow> st') in
      case Set_blob lib r ks of
        Panic \<Rightarrow> Panic
      | Value (Inl err) \<Rightarrow> Value (Some err, st1)
      | Value (Inr v) \<Rightarrow>
          (case kAPI_Set_PrevIgnore st1 path v of
             Inl err \<Rightarrow> Value (Some err, st1)
           | Inr st2 \<Rightarrow> Value (None, st2)))"

definition etcd_PrivateKeySetRepo_Get ::
  "'rsa keylibs \<Rightarrow> (bytes \<Rightarrow> bytes) \<Rightarrow> PrivateKeySetRepo \<Rightarrow> string \<Rightarrow> 8 word etcd
     \<Rightarrow> error + 'rsa PrivateKeySet option" where
  "etcd_PrivateKeySetRepo_Get lib reply r path st =
     (case kAPI_Get reply st path of
        Inl (EtcdError ErrorCodeKeyNotFound) \<Rightarrow> Inl key_ErrorNoKeys
      | Inl err \<Rightarrow> Inl err
      | Inr None \<Rightarrow> Inl key_ErrorNoKeys
      | Inr (Some node) \<Rightarrow> Get_result (Get_loop lib r (n_Value node) (secrets r) (None, None)))"

text \<open>
  On MongoDB the \<^verbatim>\<open>Key\<close> collection is the list of its blobs. \<^verbatim>\<open>Set\<close> drops the
  collection first; \<^verbatim>\<open>Get\<close> reads all blobs and takes the first.
\<close>

definition mongo_PrivateKeySetRepo_Set ::
  "'rsa keylibs \<Rightarrow> PrivateKeySetRepo \<Rightarrow> bytes list \<Rightarrow> 'rsa KeySet \<Rightarrow> (error option \<times> bytes list) go" where
  "mongo_PrivateKeySetRepo_Set lib r col ks =
     (let dropped = [] in
      case Set_blob lib r ks of
        Panic \<Rightarrow> Panic
      | Value (Inl err) \<Rightarrow> Value (Some err, dropped)
      | Value (Inr v) \<Rightarrow> Value (None, dropped @ [v]))"

definition mongo_PrivateKeySetRepo_Get ::
  "'rsa keylibs \<Rightarrow> PrivateKeySetRepo \<Rightarrow> bytes list \<Rightarrow> error + 'rsa PrivateKeySet option" where
  "mongo_PrivateKeySetRepo_Get lib r col =
     (case col of
        [] \<Rightarrow> Inl key_ErrorNoKeys
      | b # _ \<Rightarrow> Get_result (Get_loop lib r b (secrets r) (None, None)))"

subsection \<open>Sessions (\<^verbatim>\<open>db/etcd/session.go\<close> and the MongoDB session repository)\<close>

text \<open>
  \<^verbatim>\<open>session.Session\<close>, with the redirect URL of a type \<open>'url\<close> (\<^verbatim>\<open>url.URL\<close>) and the
  identity of a type \<open>'ident\<close> (\<^verbatim>\<open>oidc.Identity\<close>). The library functions are
  parameters: \<^verbatim>\<open>url.Parse\<close>, \<^verbatim>\<open>URL.String\<close>, and the JSON encoder and parser at
  \<^verbatim>\<open>oidc.Identity\<close> (the parser followed by the reset of a zero \<^verbatim>\<open>ExpiresAt\<close>, which
  changes the location of the time only).
\<close>

record ('url, 'ident) Session =
  s_ID :: string
  s_State :: string
  s_CreatedAt :: time
  s_ExpiresAt :: time
  s_ClientID :: string
  s_ClientState :: string
  s_RedirectURL :: 'url
  s_Identity :: 'ident
  s_ConnectorID :: string
  s_UserID :: string
  s_Register :: bool
  s_Nonce :: string
  s_Scope :: "string list"

record ('url, 'ident) sessionlibs =
  url_Parse :: "string \<Rightarrow> error + 'url"
  url_String :: "'url \<Rightarrow> string"
  json_Marshal_Identity :: "'ident \<Rightarrow> error + string"
  json_Unmarshal_Identity :: "string \<Rightarrow> error + 'ident"

record etcd_sessionModel =
  es_ID :: string
  es_State :: string
  es_CreatedAt :: int        \<comment> \<open>\<^verbatim>\<open>int64\<close>, Unix seconds\<close>
  es_ExpiresAt :: int        \<comment> \<open>\<^verbatim>\<open>int64\<close>, Unix seconds\<close>
  es_ClientID :: string
  es_ClientState :: string
  es_RedirectURL :: string
  es_Identity :: string
  es_ConnectorID :: string
  es_UserID :: string
  es_Register :: bool
  es_Nonce :: string
  es_Scope :: "string list"

definition etcd_sessionModel_session ::
  "('url, 'ident) sessionlibs \<Rightarrow> etcd_sessionModel \<Rightarrow> error + ('url, 'ident) Session" where
  "etcd_sessionModel_session lib s =
     (case url_Parse lib (es_RedirectURL s) of
        Inl err \<Rightarrow> Inl err
      | Inr ru \<Rightarrow>
          (case json_Unmarshal_Identity lib (es_Identity s) of
             Inl err \<Rightarrow> Inl err
           | Inr ident \<Rightarrow>
               Inr \<lparr>s_ID = es_ID s, s_State = es_State s,
                    s_CreatedAt = (if es_CreatedAt s \<noteq> 0 then time_of_Unix (es_CreatedAt s) else zero_Time),
                    s_ExpiresAt = (if es_ExpiresAt s \<noteq> 0 then time_of_Unix (es_ExpiresAt s) else zero_Time),
                    s_ClientID = es_ClientID s, s_ClientState = es_ClientState s,
                    s_RedirectURL = ru, s_Identity = ident,
                    s_ConnectorID = es_ConnectorID s, s_UserID = es_UserID s,
                    s_Register = es_Register s, s_Nonce = es_Nonce s, s_Scope = es_Scope s\<rparr>))"

definition etcd_newSessionModel ::
  "('url, 'ident) sessionlibs \<Rightarrow> ('url, 'ident) Session \<Rightarrow> error + etcd_sessionModel" where
  "etcd_newSessionModel lib s =
     (case json_Marshal_Identity lib (s_Identity s) of
        Inl err \<Rightarrow> Inl err
      | Inr b \<Rightarrow>
          Inr \<lparr>es_ID = s_ID s, es_State = s_State s,
               es_CreatedAt = (if \<not> IsZero (s_CreatedAt s) then time_Unix (s_CreatedAt s) else 0),
               es_ExpiresAt = (if \<not> IsZero (s_ExpiresAt s) then time_Unix (s_ExpiresAt s) else 0),
               es_ClientID = s_ClientID s, es_ClientState = s_ClientState s,
               es_RedirectURL = url_String lib (s_RedirectURL s), es_Identity = b,
               es_ConnectorID = s_ConnectorID s, es_UserID = s_UserID s,
               es_Register = s_Register s, es_Nonce = s_Nonce s, es_Scope = s_Scope s\<rparr>)"

text \<open>
  The functions of the etcd repository take \<open>key\<close>, the method \<^verbatim>\<open>r.key(id)\<close>, which is
  \<^verbatim>\<open>path.Join(r.driver.directory, SessionDirectory, id)\<close>, and \<open>js\<close>, the JSON library at
  \<^verbatim>\<open>sessionModel\<close>.
\<close>

definition etcd_sessionRepo_get ::
  "(string \<Rightarrow> string) \<Rightarrow> etcd_sessionModel etcd_json \<Rightarrow> char etcd \<Rightarrow> string
     \<Rightarrow> error + etcd_sessionModel" where
  "etcd_sessionRepo_get key js st sid =
     (case kAPI_Get (reply_text js) st (key sid) of
        Inl err \<Rightarrow> Inl err
      | Inr None \<Rightarrow> Inl session_does_not_exist
      | Inr (Some node) \<Rightarrow>
          (case Unmarshal js (n_Value node) of
             Inl err \<Rightarrow> Inl err
           | Inr c \<Rightarrow> Inr c))"

definition etcd_sessionRepo_insert ::
  "(string \<Rightarrow> string) \<Rightarrow> etcd_sessionModel etcd_json \<Rightarrow> char etcd \<Rightarrow> etcd_sessionModel
     \<Rightarrow> error + char etcd" where
  "etcd_sessionRepo_insert key js st sm =
     (case Marshal js sm of
        Inl err \<Rightarrow> Inl err
      | Inr b \<Rightarrow> kAPI_Create st (key (es_ID sm)) b)"

definition etcd_sessionRepo_Get ::
  "('url, 'ident) sessionlibs \<Rightarrow> (string \<Rightarrow> string) \<Rightarrow> etcd_sessionModel etcd_json \<Rightarrow> time
     \<Rightarrow> char etcd \<Rightarrow> string \<Rightarrow> error + ('url, 'ident) Session" where
  "etcd_sessionRepo_Get lib key js now st sessionID =
     (case etcd_sessionRepo_get key js st sessionID of
        Inl err \<Rightarrow> Inl err
      | Inr sm \<Rightarrow>
          (case etcd_sessionModel_session lib sm of
             Inl err \<Rightarrow> Inl err
           | Inr ses \<Rightarrow>
               if s_ExpiresAt ses < now then Inl session_does_not_exist else Inr ses))"

definition etcd_sessionRepo_Create ::
  "('url, 'ident) sessionlibs \<Rightarrow> (string \<Rightarrow> string) \<Rightarrow> etcd_sessionModel etcd_json \<Rightarrow> char etcd
     \<Rightarrow> ('url, 'ident) Session \<Rightarrow> error + char etcd" where
  "etcd_sessionRepo_Create lib key js st s =
     (case etcd_newSessionModel lib s of
        Inl err \<Rightarrow> Inl err
      | Inr sm \<Rightarrow> etcd_sessionRepo_insert key js st sm)"

definition etcd_sessionRepo_Update ::
  "('url, 'ident) sessionlibs \<Rightarrow> (string \<Rightarrow> string) \<Rightarrow> etcd_sessionModel etcd_json \<Rightarrow> char etcd
     \<Rightarrow> ('url, 'ident) Session \<Rightarrow> error + char etcd" where
  "etcd_sessionRepo_Update lib key js st s =
     (case etcd_newSessionModel lib s of
        Inl err \<Rightarrow> Inl err
      | Inr sm \<Rightarrow> etcd_sessionRepo_insert key js st sm)"

record mongo_sessionModel =
  ms_ID :: string
  ms_State :: string
  ms_CreatedAt :: time
  ms_ExpiresAt :: time
  ms_ClientID :: string
  ms_ClientState :: string
  ms_RedirectURL :: string
  ms_Identity :: string
  ms_ConnectorID :: string
  ms_UserID :: string
  ms_Register :: bool
  ms_Nonce :: string
  ms_Scope :: "string list"

definition mongo_sessionModel_session ::
  "('url, 'ident) sessionlibs \<Rightarrow> mongo_sessionModel \<Rightarrow> error + ('url, 'ident) Session" where
  "mongo_sessionModel_session lib s =
     (case url_Parse lib (ms_RedirectURL s) of
        Inl err \<Rightarrow> Inl err
      | Inr ru \<Rightarrow>
          (case json_Unmarshal_Identity lib (ms_Identity s) of
             Inl err \<Rightarrow> Inl err
           | Inr ident \<Rightarrow>
               Inr \<lparr>s_ID = ms_ID s, s_State = ms_State s,
                    s_CreatedAt = (if \<not> IsZero (ms_CreatedAt s) then ms_CreatedAt s else zero_Time),
                    s_ExpiresAt = (if \<not> IsZero (ms_ExpiresAt s) then ms_ExpiresAt s else zero_Time),
                    s_ClientID = ms_ClientID s, s_ClientState = ms_ClientState s,
                    s_RedirectURL = ru, s_Identity = ident,
                    s_ConnectorID = ms_ConnectorID s, s_UserID = ms_UserID s,
                    s_Register = ms_Register s, s_Nonce = ms_Nonce s, s_Scope = ms_Scope s\<rparr>))"

definition mongo_newSessionModel ::
  "('url, 'ident) sessionlibs \<Rightarrow> ('url, 'ident) Session \<Rightarrow> error + mongo_sessionModel" where
  "mongo_newSessionModel lib s =
     (case json_Marshal_Identity lib (s_Identity s) of
        Inl err \<Rightarrow> Inl err
      | Inr b \<Rightarrow>
          Inr \<lparr>ms_ID = s_ID s, ms_State = s_State s,
               ms_CreatedAt = (if \<not> IsZero (s_CreatedAt s) then s_CreatedAt s else zero_Time),
               ms_ExpiresAt = (if \<not> IsZero (s_ExpiresAt s) then s_ExpiresAt s else zero_Time),
               ms_ClientID = s_ClientID s, ms_ClientState = s_ClientState s,
               ms_RedirectURL = url_String lib (s_RedirectURL s), ms_Identity = b,
               ms_ConnectorID = s_ConnectorID s, ms_UserID = s_UserID s,
               ms_Register = s_Register s, ms_Nonce = s_Nonce s, ms_Scope = s_Scope s\<rparr>)"

definition mongo_sessionRepo_Get ::
  "('url, 'ident) sessionlibs \<Rightarrow> time \<Rightarrow> (string, mongo_sessionModel) mgo_by_id \<Rightarrow> string
     \<Rightarrow> error + ('url, 'ident) Session" where
  "mongo_sessionRepo_Get lib now cc sessionID =
     (case mgo_FindId_One cc sessionID of
        Inl err \<Rightarrow> Inl err
      | Inr sm \<Rightarrow>
          (case mongo_sessionModel_session lib sm of
             Inl err \<Rightarrow> Inl err
           | Inr ses \<Rightarrow>
               if s_ExpiresAt ses < now then Inl session_does_not_exist else Inr ses))"

definition mongo_sessionModel_bson :: "mongo_sessionModel \<Rightarrow> mongo_sessionModel" where
  \<comment> \<open>the model as the collection holds it: the two times to the millisecond\<close>
  "mongo_sessionModel_bson sm =
     sm\<lparr>ms_CreatedAt := bson_time (ms_CreatedAt sm), ms_ExpiresAt := bson_time (ms_ExpiresAt sm)\<rparr>"

definition mongo_sessionRepo_Create ::
  "('url, 'ident) sessionlibs \<Rightarrow> (string, mongo_sessionModel) mgo_by_id \<Rightarrow> ('url, 'ident) Session
     \<Rightarrow> error + (string, mongo_sessionModel) mgo_by_id" where
  "mongo_sessionRepo_Create lib cc s =
     (case mongo_newSessionModel lib s of
        Inl err \<Rightarrow> Inl err
      | Inr sm \<Rightarrow> mgo_Insert cc (ms_ID sm) (mongo_sessionModel_bson sm))"

definition mongo_sessionRepo_Update ::
  "('url, 'ident) sessionlibs \<Rightarrow> (string, mongo_sessionModel) mgo_by_id \<Rightarrow> ('url, 'ident) Session
     \<Rightarrow> error + (string, mongo_sessionModel) mgo_by_id" where
  "mongo_sessionRepo_Update lib cc s =
     (case mongo_newSessionModel lib s of
        Inl err \<Rightarrow> Inl err
      | Inr sm \<Rightarrow> mgo_UpdateId cc (s_ID s) (mongo_sessionModel_bson sm))"

subsection \<open>Client identities (\<^verbatim>\<open>db/etcd/client.go\<close> and the MongoDB client repository)\<close>

definition maxSecretLength :: nat where
  "maxSecretLength = 72"

record ClientCredentials =
  cc_ID :: string
  cc_Secret :: string

record etcd_clientIdentityModel =
  ec_ID :: string
  ec_Secret :: bytes
  ec_Metadata :: string

record mongo_clientIdentityModel =
  mc_ID :: string
  mc_Secret :: bytes
  mc_Metadata :: string
  mc_DexAdmin :: bool

text \<open>
  On etcd \<open>key\<close> is the method \<^verbatim>\<open>r.key(id)\<close>, which is
  \<^verbatim>\<open>path.Join(r.driver.directory, ClientIdentityDirectory, "identity", id)\<close>, and \<open>js\<close> is
  the JSON library at \<^verbatim>\<open>clientIdentityModel\<close>.
\<close>

definition etcd_clientIdentityRepo_insert ::
  "(string \<Rightarrow> string) \<Rightarrow> etcd_clientIdentityModel etcd_json \<Rightarrow> char etcd \<Rightarrow> etcd_clientIdentityModel
     \<Rightarrow> error + char etcd" where
  "etcd_clientIdentityRepo_insert key js st cim =
     (case Marshal js cim of
        Inl err \<Rightarrow> Inl err
      | Inr b \<Rightarrow> kAPI_Create st (key (ec_ID cim)) b)"

definition etcd_clientIdentityRepo_get ::
  "(string \<Rightarrow> string) \<Rightarrow> etcd_clientIdentityModel etcd_json \<Rightarrow> char etcd \<Rightarrow> string
     \<Rightarrow> error + etcd_clientIdentityModel" where
  "etcd_clientIdentityRepo_get key js st cid =
     (case kAPI_Get (reply_text js) st (key cid) of
        Inl (EtcdError ErrorCodeKeyNotFound) \<Rightarrow> Inl client_ErrorNotFound
      | Inl err \<Rightarrow> Inl err
      | Inr None \<Rightarrow> Inl client_ErrorNotFound
      | Inr (Some node) \<Rightarrow>
          (case Unmarshal js (n_Value node) of
             Inl err \<Rightarrow> Inl err
           | Inr c \<Rightarrow> Inr c))"

text \<open>\<^verbatim>\<open>Authenticate\<close> returns \<^verbatim>\<open>(bool, error)\<close>: a pair, with \<open>None\<close> the nil error.\<close>

definition etcd_clientIdentityRepo_Authenticate ::
  "bcrypt \<Rightarrow> base64 \<Rightarrow> (string \<Rightarrow> string) \<Rightarrow> etcd_clientIdentityModel etcd_json \<Rightarrow> char etcd
     \<Rightarrow> ClientCredentials \<Rightarrow> bool \<times> error option" where
  "etcd_clientIdentityRepo_Authenticate bc b64 key js st creds =
     (case etcd_clientIdentityRepo_get key js st (cc_ID creds) of
        Inl err \<Rightarrow> if err = client_ErrorNotFound then (False, None) else (False, Some err)
      | Inr cim \<Rightarrow>
          (case DecodeString b64 (cc_Secret creds) of
             Inl err \<Rightarrow> (False, None)
           | Inr dec \<Rightarrow>
               if length dec > maxSecretLength then (False, None)
               else (CompareHashAndPassword bc (ec_Secret cim) dec = None, None)))"

definition mongo_clientIdentityRepo_Authenticate ::
  "bcrypt \<Rightarrow> base64 \<Rightarrow> (string, mongo_clientIdentityModel) mgo_by_id \<Rightarrow> ClientCredentials
     \<Rightarrow> bool \<times> error option" where
  "mongo_clientIdentityRepo_Authenticate bc b64 con creds =
     (case mgo_FindId_One con (cc_ID creds) of
        Inl err \<Rightarrow> if err = mgo_ErrNotFound then (False, None) else (False, Some err)
      | Inr cim \<Rightarrow>
          (case DecodeString b64 (cc_Secret creds) of
             Inl err \<Rightarrow> (False, None)
           | Inr dec \<Rightarrow>
               if length dec > maxSecretLength then (False, None)
               else (CompareHashAndPassword bc (mc_Secret cim) dec = None, None)))"

subsection \<open>Users on MongoDB (\<^verbatim>\<open>db/mongodb/user.go\<close>)\<close>

text \<open>
  The \<^verbatim>\<open>User\<close> collection is read by \<^verbatim>\<open>_id\<close> and by \<^verbatim>\<open>email\<close>, so it is the list of its
  documents in natural order: \<^verbatim>\<open>Find(sel).One\<close> reads the first match, \<^verbatim>\<open>Insert\<close>
  fails on an \<^verbatim>\<open>_id\<close> in use and appends otherwise, \<^verbatim>\<open>UpdateId(id, doc)\<close> replaces the
  document of that \<^verbatim>\<open>_id\<close>. \<open>ValidEmail\<close> is \<^verbatim>\<open>user.ValidEmail\<close>, of package \<^verbatim>\<open>user\<close>,
  outside the sources.
\<close>

record User =
  u_ID :: string
  u_Email :: string
  u_EmailVerified :: bool
  u_DisplayName :: string
  u_Admin :: bool
  u_Disabled :: bool
  u_CreatedAt :: time

record remoteIdentity =
  ri_ConnectorID :: string
  ri_RemoteID :: string

record userModel =
  um_ID :: string
  um_Email :: string
  um_EmailVerified :: bool
  um_DisplayName :: string
  um_Disabled :: bool
  um_Admin :: bool
  um_CreatedAt :: time
  um_RemoteIdentities :: "remoteIdentity list"

definition userModel_user :: "userModel \<Rightarrow> User" where
  "userModel_user u =
     \<lparr>u_ID = um_ID u, u_Email = um_Email u, u_EmailVerified = um_EmailVerified u,
      u_DisplayName = um_DisplayName u, u_Admin = um_Admin u, u_Disabled = um_Disabled u,
      u_CreatedAt = (if \<not> IsZero (um_CreatedAt u) then um_CreatedAt u else zero_Time)\<rparr>"

definition newUserModel :: "User \<Rightarrow> userModel" where
  "newUserModel u =
     \<lparr>um_ID = u_ID u, um_Email = u_Email u, um_EmailVerified = u_EmailVerified u,
      um_DisplayName = u_DisplayName u, um_Disabled = u_Disabled u, um_Admin = u_Admin u,
      um_CreatedAt = (if \<not> IsZero (u_CreatedAt u) then u_CreatedAt u else zero_Time),
      um_RemoteIdentities = []\<rparr>"

definition mgo_Insert_user :: "userModel list \<Rightarrow> userModel \<Rightarrow> error + userModel list" where
  "mgo_Insert_user c doc =
     (if um_ID doc \<in> um_ID ` set c then Inl mgo_DuplicateKey else Inr (c @ [doc]))"

definition userRepo_GetByEmail :: "userModel list \<Rightarrow> string \<Rightarrow> error + User" where
  "userRepo_GetByEmail c email =
     (case mgo_Find_One (\<lambda>d. um_Email d = email) c of
        Inl err \<Rightarrow> if err = mgo_ErrNotFound then Inl user_ErrorNotFound else Inl err
      | Inr usr \<Rightarrow> Inr (userModel_user usr))"

definition userRepo_Create :: "(string \<Rightarrow> bool) \<Rightarrow> userModel list \<Rightarrow> User \<Rightarrow> error + userModel list" where
  "userRepo_Create ValidEmail c usr =
     (if u_ID usr = [] then Inl user_ErrorInvalidID
      else case mgo_Find_One (\<lambda>d. um_ID d = u_ID usr) c of
          Inr usr2 \<Rightarrow> Inl user_ErrorDuplicateID
        | Inl err \<Rightarrow>
            if err = mgo_ErrNotFound then
              (if \<not> ValidEmail (u_Email usr) then Inl user_ErrorInvalidEmail
               else case userRepo_GetByEmail c (u_Email usr) of
                   Inr other \<Rightarrow> Inl user_ErrorDuplicateEmail
                 | Inl err \<Rightarrow>
                     if err = user_ErrorNotFound then mgo_Insert_user c (newUserModel usr)
                     else Inl err)
            else Inl err)"

definition userRepo_Update :: "(string \<Rightarrow> bool) \<Rightarrow> userModel list \<Rightarrow> User \<Rightarrow> error + userModel list" where
  "userRepo_Update ValidEmail c usr =
     (if u_ID usr = [] then Inl user_ErrorInvalidID
      else if \<not> ValidEmail (u_Email usr) then Inl user_ErrorInvalidEmail
      else case mgo_Find_One (\<lambda>d. um_ID d = u_ID usr) c of
          Inl err \<Rightarrow> if err = mgo_ErrNotFound then Inl user_ErrorNotFound else Inl err
        | Inr usrOther \<Rightarrow>
            (case mgo_Find_One (\<lambda>d. um_Email d = u_Email usr) c of
               Inl err \<Rightarrow>
                 if err = mgo_ErrNotFound
                 then mgo_Update (\<lambda>d. um_ID d = u_ID usr) (newUserModel usr) c
                 else Inl err
             | Inr usrOther2 \<Rightarrow>
                 if um_ID usrOther2 \<noteq> u_ID usr then Inl user_ErrorDuplicateEmail
                 else mgo_Update (\<lambda>d. um_ID d = u_ID usr) (newUserModel usr) c))"

text \<open>
  The invariant of the \<^verbatim>\<open>User\<close> collection that claim C9 names: no two documents share
  an id, no two share an email, and no document has the empty id.
\<close>

definition userstore_inv :: "userModel list \<Rightarrow> bool" where
  "userstore_inv c = (distinct (map um_ID c) \<and> distinct (map um_Email c) \<and> [] \<notin> um_ID ` set c)"


subsection \<open>Stand-ins for the libraries and sample values\<close>

text \<open>
  The concrete instances of the theorems below need values for the library parameters.
  These stand-ins are used there and nowhere else: a hash that reverses the payload, the
  base64 decoder at three strings (\<^verbatim>\<open>cGF5\<close> is the encoding of \<^verbatim>\<open>pay\<close>, a hundred \<^verbatim>\<open>A\<close>
  decode to 75 zero bytes), object ids that are their own hexadecimal form, a cipher
  that prefixes the secret to the plaintext, one-byte RSA keys, a JSON encoder that
  keeps the key bytes, URLs and identities that are their own text, and an email test
  that looks for the at sign.
\<close>

abbreviation (input) standin_bcrypt :: bcrypt where
  "standin_bcrypt \<equiv>
     \<lparr>GenerateFromPassword = (\<lambda>p. Inr (rev p)),
      CompareHashAndPassword = (\<lambda>h p. if h = rev p then None else Some ErrMismatchedHashAndPassword)\<rparr>"

abbreviation (input) standin_base64 :: base64 where
  "standin_base64 \<equiv>
     \<lparr>EncodeToString = (\<lambda>p. if p = [112, 97, 121] then ''cGF5'' else ''AAAA''),
      DecodeString = (\<lambda>s. if s = ''cGF5'' then Inr [112, 97, 121]
                          else if s = replicate 100 CHR ''A'' then Inr (replicate 75 0)
                          else Inl (library_error ''illegal base64 data''))\<rparr>"

abbreviation (input) standin_sessionlibs :: "(string, string) sessionlibs" where
  "standin_sessionlibs \<equiv>
     \<lparr>url_Parse = Inr, url_String = (\<lambda>u. u), json_Marshal_Identity = Inr, json_Unmarshal_Identity = Inr\<rparr>"

abbreviation (input) a_Session :: "(string, string) Session" where
  "a_Session \<equiv>
     \<lparr>s_ID = ''s1'', s_State = ''NEW'', s_CreatedAt = 40000000000, s_ExpiresAt = 100000000000,
      s_ClientID = ''app'', s_ClientState = ''xyz'', s_RedirectURL = ''http://app.example/cb'',
      s_Identity = ''{}'', s_ConnectorID = ''local'', s_UserID = ''alice'', s_Register = False,
      s_Nonce = ''n'', s_Scope = [''openid'']\<rparr>"

abbreviation (input) standin_bson :: "string bson" where
  "standin_bson \<equiv> \<lparr>Hex = (\<lambda>x. x), IsObjectIdHex = (\<lambda>s. length s = 24), ObjectIdHex = (\<lambda>s. s)\<rparr>"

abbreviation (input) standin_keylibs :: "8 word keylibs" where
  "standin_keylibs \<equiv>
     \<lparr>Encrypt = (\<lambda>plain secret. Inr (secret @ plain)),
      Decrypt = (\<lambda>cipher secret.
         if take (length secret) cipher = secret then Inr (drop (length secret) cipher)
         else Inl (library_error ''message authentication failed'')),
      AESEncrypt = (\<lambda>plain secret. Inr (secret @ plain)),
      AESDecrypt = (\<lambda>cipher secret.
         if take (length secret) cipher = secret then Inr (drop (length secret) cipher)
         else Inl (library_error ''invalid padding'')),
      MarshalPKCS1PrivateKey = (\<lambda>d. [d]),
      ParsePKCS1PrivateKey = (\<lambda>der. case der of [d] \<Rightarrow> Inr d | _ \<Rightarrow> Inl (library_error ''asn1'')),
      json_Marshal = (\<lambda>m. Inr (concat (map pkm_PKCS1 (pksm_Keys m)))),
      json_Unmarshal = (\<lambda>j. Inr \<lparr>pksm_Keys = map (\<lambda>b. \<lparr>pkm_ID = ''k1'', pkm_PKCS1 = [b]\<rparr>) j,
                                  pksm_ExpiresAt = 99\<rparr>)\<rparr>"

abbreviation (input) standin_ValidEmail :: "string \<Rightarrow> bool" where
  "standin_ValidEmail \<equiv> (\<lambda>email. CHR ''@'' \<in> set email)"

abbreviation (input) alice :: User where
  "alice \<equiv> \<lparr>u_ID = ''1'', u_Email = ''alice@example.com'', u_EmailVerified = True,
             u_DisplayName = ''Alice'', u_Admin = False, u_Disabled = False, u_CreatedAt = 5000000000\<rparr>"

abbreviation (input) bob :: User where
  "bob \<equiv> \<lparr>u_ID = ''2'', u_Email = ''bob@example.com'', u_EmailVerified = False,
           u_DisplayName = ''Bob'', u_Admin = False, u_Disabled = False, u_CreatedAt = 6000000000\<rparr>"

text \<open>
  For the repositories on etcd: the conversion of a duration to seconds by division,
  which is what \<^verbatim>\<open>int64(exp.Seconds())\<close> gives at a whole number of seconds below \<open>2^53\<close>;
  a JSON library given by the table of the models it knows and their texts (written
  without the quotation marks of JSON), whose parser answers every other text, the
  empty one of a directory among them, as Go's answers the empty text, and whose texts
  are ASCII, which the reply keeps; and the reply at bytes that are ASCII or can start
  no UTF-8 sequence, such as \<open>0xFF\<close>.
\<close>

abbreviation (input) standin_Seconds :: "Duration \<Rightarrow> int" where
  "standin_Seconds \<equiv> (\<lambda>d. d div 1000000000)"

abbreviation (input) standin_json :: "('m \<times> string) list \<Rightarrow> 'm etcd_json" where
  "standin_json table \<equiv>
     \<lparr>Marshal = (\<lambda>m. case map_of table m of
                        None \<Rightarrow> Inl (library_error ''json: unsupported value'')
                      | Some j \<Rightarrow> Inr j),
      Unmarshal = (\<lambda>j. case map_of (map (\<lambda>p. (snd p, fst p)) table) j of
                          None \<Rightarrow> Inl (library_error ''unexpected end of JSON input'')
                        | Some m \<Rightarrow> Inr m),
      reply_text = (\<lambda>v. v)\<rparr>"

abbreviation (input) standin_json_sessionKey :: "etcd_sessionKeyModel etcd_json" where
  "standin_json_sessionKey \<equiv> standin_json
     [(\<lparr>e_Key = ''k'', e_SessionID = ''s'', e_ExpiresAt = 61, e_Stale = False\<rparr>,
       ''{key:k,session_id:s,expires_at:61,stale:false}''),
      (\<lparr>e_Key = ''k'', e_SessionID = ''s'', e_ExpiresAt = 61, e_Stale = True\<rparr>,
       ''{key:k,session_id:s,expires_at:61,stale:true}'')]"

abbreviation (input) standin_json_refreshToken :: "etcd_refreshTokenModel etcd_json" where
  "standin_json_refreshToken \<equiv> standin_json
     [(\<lparr>r_ID = ''0a'', r_PayloadHash = [121, 97, 112], r_UserID = ''alice'', r_ClientID = ''app''\<rparr>,
       ''{id:0a,payload_hash:eWFw,user_id:alice,client_id:app}''),
      (\<lparr>r_ID = ''0a'', r_PayloadHash = [1], r_UserID = ''bob'', r_ClientID = ''app''\<rparr>,
       ''{id:0a,payload_hash:AQ==,user_id:bob,client_id:app}'')]"

abbreviation (input) a_sessionModel :: etcd_sessionModel where
  "a_sessionModel \<equiv>
     \<lparr>es_ID = ''s1'', es_State = ''NEW'', es_CreatedAt = 40, es_ExpiresAt = 100,
      es_ClientID = ''app'', es_ClientState = ''xyz'', es_RedirectURL = ''http://app.example/cb'',
      es_Identity = ''{}'', es_ConnectorID = ''local'', es_UserID = ''alice'', es_Register = False,
      es_Nonce = ''n'', es_Scope = [''openid'']\<rparr>"

abbreviation (input) standin_json_session :: "etcd_sessionModel etcd_json" where
  "standin_json_session \<equiv> standin_json
     [(a_sessionModel, ''{id:s1,state:NEW,created_at:40,expires_at:100}''),
      (a_sessionModel\<lparr>es_State := ''IDENTIFIED''\<rparr>, ''{id:s1,state:IDENTIFIED,created_at:40,expires_at:100}'')]"

abbreviation (input) standin_json_clientIdentity :: "etcd_clientIdentityModel etcd_json" where
  "standin_json_clientIdentity \<equiv> standin_json
     [(\<lparr>ec_ID = ''app'', ec_Secret = [121, 97, 112], ec_Metadata = ''{}''\<rparr>,
       ''{id:app,secret:eWFw,metadata:{}}'')]"

abbreviation (input) standin_reply :: "bytes \<Rightarrow> bytes" where
  "standin_reply \<equiv> (\<lambda>v. concat (map (\<lambda>b. if b < 128 then [b] else [239, 191, 189]) v))"

text \<open>
  The key of a client on etcd under the directory \<^verbatim>\<open>/dex\<close>, at the empty id and at an id
  that is one path element: \<^verbatim>\<open>path.Join\<close> drops an empty element, so the key of the empty
  id is the path of the directory that holds the clients.
\<close>

abbreviation (input) standin_clientIdentity_key :: "string \<Rightarrow> string" where
  "standin_clientIdentity_key \<equiv>
     (\<lambda>i. if i = [] then ''/dex/client_identity/identity'' else ''/dex/client_identity/identity/'' @ i)"



section \<open>Properties\<close>

subsection \<open>The etcd keys API\<close>

lemma path_prefixes_length:
  "x \<in> set (path_prefixes pre cs) \<Longrightarrow> length x < length pre + length cs"
proof (induction cs arbitrary: pre)
  case Nil
  then show ?case by simp
next
  case (Cons c cs)
  then show ?case by (fastforce split: if_splits list.splits)
qed

lemma path_ancestors_self: "p \<notin> set (path_ancestors p)"
  using path_prefixes_length [of p "[]" p] by (auto simp add: path_ancestors_def)


lemma under_a_value_empty: "\<not> under_a_value Map.empty p"
  by (simp add: under_a_value_def list_ex_iff)

lemma fold_mkdir_at:
  "fold (\<lambda>a s. case s a of None \<Rightarrow> s(a \<mapsto> d) | Some n \<Rightarrow> s) as st a
     = (case st a of Some n \<Rightarrow> Some n | None \<Rightarrow> if a \<in> set as then Some d else None)"
  by (induction as arbitrary: st) (auto split: option.splits)

text \<open>
  After a node was created and deleted again, only directories are above its path: the
  ones that were there and the ones the creation made.
\<close>

lemma under_a_value_deleted:
  assumes "\<not> under_a_value st p"
  shows "\<not> under_a_value ((etcd_mkdirs st p)(p := None)) p"
proof -
  have "case ((etcd_mkdirs st p)(p := None)) a of None \<Rightarrow> True | Some n \<Rightarrow> n_Dir n"
    if "a \<in> set (path_ancestors p)" for a
  proof -
    have "a \<noteq> p" using that path_ancestors_self by blast
    moreover have "case st a of None \<Rightarrow> True | Some n \<Rightarrow> n_Dir n"
      using assms that by (auto simp add: under_a_value_def list_ex_iff split: option.splits)
    ultimately show ?thesis
      using that by (simp add: etcd_mkdirs_def fold_mkdir_at split: option.splits)
  qed
  then show ?thesis
    by (fastforce simp add: under_a_value_def list_ex_iff split: option.splits)
qed

subsection \<open>Session keys: \<^verbatim>\<open>Pop\<close>\<close>












text \<open>
  Claim C2 fails on etcd. Two callers pop the key \<open>k\<close> that one \<^verbatim>\<open>Push\<close> created; both
  take their \<^verbatim>\<open>Get\<close> before either takes its \<^verbatim>\<open>Set\<close> (schedule 0, 1, 0, 1). Both read
  the record fresh, and both writes pass, since \<^verbatim>\<open>PrevExist\<close> asks only that the node
  exists: both callers return the session id.
\<close>

theorem etcd_Pop_interleaved_two_successes:
  "(case etcd_sessionKeyRepo_Push (\<lambda>id. ''/dex/session_key/'' @ id) standin_json_sessionKey
           standin_Seconds 1000000000 Map.empty \<lparr>sk_Key = ''k'', sk_SessionID = ''s''\<rparr> 60000000000 of
      Inl err \<Rightarrow> []
    | Inr st \<Rightarrow>
        snd (etcd_Pop_run (\<lambda>id. ''/dex/session_key/'' @ id) standin_json_sessionKey 5000000000
               [0, 1, 0, 1] (st, [Calling ''k'', Calling ''k''])))
   = [Returned (Inr ''s''), Returned (Inr ''s'')]"
  by (simp add: etcd_sessionKeyRepo_Push_def kAPI_Set_PrevNoExist_def kAPI_Create_def
      under_a_value_empty time_Unix_def etcd_Pop_step_def etcd_sessionKeyRepo_Pop_get_def
      etcd_sessionKeyRepo_get_def kAPI_Get_def etcd_sessionKeyRepo_Pop_set_def kAPI_Set_PrevExist_def)

text \<open>One caller after the other (schedule 0, 0, 1, 1): the second is refused.\<close>

lemma etcd_Pop_run_sequential:
  "(case etcd_sessionKeyRepo_Push (\<lambda>id. ''/dex/session_key/'' @ id) standin_json_sessionKey
           standin_Seconds 1000000000 Map.empty \<lparr>sk_Key = ''k'', sk_SessionID = ''s''\<rparr> 60000000000 of
      Inl err \<Rightarrow> []
    | Inr st \<Rightarrow>
        snd (etcd_Pop_run (\<lambda>id. ''/dex/session_key/'' @ id) standin_json_sessionKey 5000000000
               [0, 0, 1, 1] (st, [Calling ''k'', Calling ''k''])))
   = [Returned (Inr ''s''), Returned (Inl invalid_session_key)]"
  by (simp add: etcd_sessionKeyRepo_Push_def kAPI_Set_PrevNoExist_def kAPI_Create_def
      under_a_value_empty time_Unix_def etcd_Pop_step_def etcd_sessionKeyRepo_Pop_get_def
      etcd_sessionKeyRepo_get_def kAPI_Get_def etcd_sessionKeyRepo_Pop_set_def kAPI_Set_PrevExist_def)

subsection \<open>Refresh tokens\<close>

lemma SplitN_2_first:
  "delim \<notin> set a \<Longrightarrow> SplitN_2 delim (a @ delim # b) = Some (a, b)"
  by (induction a) auto

lemma etcd_parseToken_buildToken:
  "delim \<notin> set tid \<Longrightarrow> DecodeString b64 (EncodeToString b64 p) = Inr p \<Longrightarrow>
   etcd_parseToken b64 delim (etcd_buildToken b64 delim tid p) = Inr (tid, p)"
  by (simp add: etcd_parseToken_def etcd_buildToken_def SplitN_2_first)

lemma mongo_parseToken_buildToken:
  "delim \<notin> set (Hex bs tid) \<Longrightarrow> IsObjectIdHex bs (Hex bs tid) \<Longrightarrow>
   ObjectIdHex bs (Hex bs tid) = tid \<Longrightarrow>
   DecodeString b64 (EncodeToString b64 p) = Inr p \<Longrightarrow>
   mongo_parseToken bs b64 delim (mongo_buildToken bs b64 delim tid p) = Inr (tid, p)"
  by (simp add: mongo_parseToken_def mongo_buildToken_def SplitN_2_first)

lemma etcd_Create_Inr:
  assumes "etcd_refreshTokenRepo_Create bc b64 delim key js (Inr payload) newId st u c = Inr (t, st1)"
  shows "\<exists>h j. GenerateFromPassword bc payload = Inr h
           \<and> Marshal js \<lparr>r_ID = newId, r_PayloadHash = h, r_UserID = u, r_ClientID = c\<rparr> = Inr j
           \<and> \<not> under_a_value st (key newId)
           \<and> st1 = (etcd_mkdirs st (key newId))(key newId \<mapsto> \<lparr>n_Dir = False, n_Value = j\<rparr>)
           \<and> t = etcd_buildToken b64 delim newId payload"
  using assms
  by (auto simp add: etcd_refreshTokenRepo_Create_def etcd_refreshTokenRepo_insert_def
      kAPI_Create_def Let_def split: if_splits sum.splits option.splits)

lemma mongo_Create_Inr:
  assumes "mongo_refreshTokenRepo_Create bc bs b64 delim (Inr payload) newId cc u c = Inr (t, cc1)"
    and "t \<noteq> []"
  shows "\<exists>h. GenerateFromPassword bc payload = Inr h \<and> cc newId = None
           \<and> cc1 = cc(newId \<mapsto> \<lparr>mr_ID = newId, mr_PayloadHash = h, mr_UserID = u, mr_ClientID = c\<rparr>)
           \<and> t = mongo_buildToken bs b64 delim newId payload"
  using assms
  by (auto simp add: mongo_refreshTokenRepo_Create_def mgo_Insert_def
      Let_def split: if_splits sum.splits option.splits)

lemma etcd_Revoke_stored:
  assumes node: "st (key tid) = Some \<lparr>n_Dir = False, n_Value = j\<rparr>"
    and rec: "Unmarshal js (reply_text js j) = Inr \<lparr>r_ID = tid, r_PayloadHash = h, r_UserID = u, r_ClientID = c\<rparr>"
    and parse: "etcd_parseToken b64 delim t = Inr (tid, p)"
    and cmp: "CompareHashAndPassword bc h p = None"
  shows "u' \<noteq> u \<Longrightarrow> etcd_refreshTokenRepo_Revoke bc b64 delim key js st u' t = Inl refresh_ErrorInvalidUserID"
    and "etcd_refreshTokenRepo_Revoke bc b64 delim key js st u t = Inr (st(key tid := None))"
    and "\<not> under_a_value (st(key tid := None)) (key tid) \<Longrightarrow>
         etcd_refreshTokenRepo_Revoke bc b64 delim key js (st(key tid := None)) u'' t = Inl refresh_ErrorInvalidToken"
  using assms
  by (auto simp add: etcd_refreshTokenRepo_Revoke_def etcd_refreshTokenRepo_get_def kAPI_Get_def
      checkTokenPayload_def kAPI_Delete_def etcd_missing_def)

lemma mongo_Revoke_stored:
  assumes rec: "cc tid = Some \<lparr>mr_ID = tid, mr_PayloadHash = h, mr_UserID = u, mr_ClientID = c\<rparr>"
    and parse: "mongo_parseToken bs b64 delim t = Inr (tid, p)"
    and cmp: "CompareHashAndPassword bc h p = None"
  shows "u' \<noteq> u \<Longrightarrow> mongo_refreshTokenRepo_Revoke bc bs b64 delim cc u' t = Inl refresh_ErrorInvalidUserID"
    and "mongo_refreshTokenRepo_Revoke bc bs b64 delim cc u t = Inr (cc(tid := None))"
    and "mongo_refreshTokenRepo_Revoke bc bs b64 delim (cc(tid := None)) u'' t = Inl refresh_ErrorInvalidToken"
  using assms
  by (auto simp add: mongo_refreshTokenRepo_Revoke_def mgo_FindId_One_def
      checkTokenPayload_def mgo_RemoveId_def)

lemma etcd_Verify_stored:
  assumes node: "st (key tid) = Some \<lparr>n_Dir = False, n_Value = j\<rparr>"
    and rec: "Unmarshal js (reply_text js j) = Inr \<lparr>r_ID = tid, r_PayloadHash = h, r_UserID = u, r_ClientID = c\<rparr>"
    and parse: "etcd_parseToken b64 delim t = Inr (tid, p)"
  shows "CompareHashAndPassword bc h p = None \<Longrightarrow>
           etcd_refreshTokenRepo_Verify bc b64 delim key js st c t = Inr u"
    and "c' \<noteq> c \<Longrightarrow> etcd_refreshTokenRepo_Verify bc b64 delim key js st c' t = Inl refresh_ErrorInvalidClientID"
    and "CompareHashAndPassword bc h p = Some ErrMismatchedHashAndPassword \<Longrightarrow>
           etcd_refreshTokenRepo_Verify bc b64 delim key js st c t = Inl refresh_ErrorInvalidToken"
  using assms
  by (auto simp add: etcd_refreshTokenRepo_Verify_def etcd_refreshTokenRepo_get_def kAPI_Get_def
      checkTokenPayload_def)

text \<open>
  Claim C4 fails on MongoDB, by the defect of claim C3. When \<^verbatim>\<open>Insert\<close> fails (here: the
  new object id is in use), \<^verbatim>\<open>Create\<close> returns the empty token with a nil error and
  stores nothing. \<^verbatim>\<open>Revoke\<close> of that token by the user it was created for fails with
  \<^verbatim>\<open>ErrorInvalidToken\<close>, so it succeeds not even once, and \<^verbatim>\<open>Revoke\<close> by another user
  fails with \<^verbatim>\<open>ErrorInvalidToken\<close>, not \<^verbatim>\<open>ErrorInvalidUserID\<close>.
\<close>

theorem mongo_refreshToken_Revoke_after_swallowed_Insert_error:
  "(case mongo_refreshTokenRepo_Create standin_bcrypt standin_bson standin_base64
      CHR ''/'' (Inr [112, 97, 121]) ''5f1b2c3d4e5f60718293a4b5''
      [''5f1b2c3d4e5f60718293a4b5'' \<mapsto> \<lparr>mr_ID = ''5f1b2c3d4e5f60718293a4b5'', mr_PayloadHash = [1], mr_UserID = ''bob'', mr_ClientID = ''app''\<rparr>]
      ''alice'' ''app'' of
      Inl err \<Rightarrow> None
    | Inr r \<Rightarrow>
        Some (fst r,
              mongo_refreshTokenRepo_Revoke standin_bcrypt standin_bson standin_base64
                CHR ''/'' (snd r) ''alice'' (fst r),
              mongo_refreshTokenRepo_Revoke standin_bcrypt standin_bson standin_base64
                CHR ''/'' (snd r) ''mallory'' (fst r)))
   = Some ([], Inl refresh_ErrorInvalidToken, Inl refresh_ErrorInvalidToken)"
  by (simp add: mongo_refreshTokenRepo_Create_def mgo_Insert_def mongo_refreshTokenRepo_Revoke_def
      mongo_parseToken_def Let_def)

text \<open>
  \<^verbatim>\<open>Revoke\<close> of a token whose record \<^verbatim>\<open>Create\<close> did store. Let \<^verbatim>\<open>Create(u, c)\<close> return the
  token \<open>t\<close> (on MongoDB: a non-empty token, so that the record was inserted). With
  bcrypt accepting the payload against the hash it made of it, base64 decoding what it
  encoded, the delimiter not in the token id and, on etcd, the record coming back from
  the key space as it was written: \<^verbatim>\<open>Revoke(u', t)\<close> for every \<open>u'\<close> other than \<open>u\<close>
  fails with \<^verbatim>\<open>ErrorInvalidUserID\<close>; \<^verbatim>\<open>Revoke(u, t)\<close> succeeds and leaves no record
  under the token id, and after it \<^verbatim>\<open>Revoke\<close> of \<open>t\<close> by any user fails with
  \<^verbatim>\<open>ErrorInvalidToken\<close>.
\<close>

theorem refreshToken_Revoke_one_shot:
  "(etcd_refreshTokenRepo_Create bc b64 delim key js (Inr payload) newId st u c = Inr (t, created)
      \<and> delim \<notin> set newId
      \<and> DecodeString b64 (EncodeToString b64 payload) = Inr payload
      \<and> (\<forall>h. GenerateFromPassword bc payload = Inr h \<longrightarrow>
            CompareHashAndPassword bc h payload = None
            \<and> json_round_trip js \<lparr>r_ID = newId, r_PayloadHash = h, r_UserID = u, r_ClientID = c\<rparr>)
    \<longrightarrow> (\<forall>u'. u' \<noteq> u \<longrightarrow>
            etcd_refreshTokenRepo_Revoke bc b64 delim key js created u' t = Inl refresh_ErrorInvalidUserID)
        \<and> (\<exists>revoked. etcd_refreshTokenRepo_Revoke bc b64 delim key js created u t = Inr revoked
              \<and> revoked (key newId) = None
              \<and> (\<forall>u''. etcd_refreshTokenRepo_Revoke bc b64 delim key js revoked u'' t
                          = Inl refresh_ErrorInvalidToken)))
   \<and> (mongo_refreshTokenRepo_Create bc bs b64 delim (Inr payload) newOid cc u c = Inr (mt, mcreated)
      \<and> mt \<noteq> []
      \<and> delim \<notin> set (Hex bs newOid) \<and> IsObjectIdHex bs (Hex bs newOid)
      \<and> ObjectIdHex bs (Hex bs newOid) = newOid
      \<and> DecodeString b64 (EncodeToString b64 payload) = Inr payload
      \<and> (\<forall>h. GenerateFromPassword bc payload = Inr h \<longrightarrow> CompareHashAndPassword bc h payload = None)
    \<longrightarrow> (\<forall>u'. u' \<noteq> u \<longrightarrow>
            mongo_refreshTokenRepo_Revoke bc bs b64 delim mcreated u' mt = Inl refresh_ErrorInvalidUserID)
        \<and> (\<exists>revoked. mongo_refreshTokenRepo_Revoke bc bs b64 delim mcreated u mt = Inr revoked
              \<and> revoked newOid = None
              \<and> (\<forall>u''. mongo_refreshTokenRepo_Revoke bc bs b64 delim revoked u'' mt
                          = Inl refresh_ErrorInvalidToken)))"
proof (intro conjI impI)
  assume a: "etcd_refreshTokenRepo_Create bc b64 delim key js (Inr payload) newId st u c = Inr (t, created)
      \<and> delim \<notin> set newId
      \<and> DecodeString b64 (EncodeToString b64 payload) = Inr payload
      \<and> (\<forall>h. GenerateFromPassword bc payload = Inr h \<longrightarrow>
            CompareHashAndPassword bc h payload = None
            \<and> json_round_trip js \<lparr>r_ID = newId, r_PayloadHash = h, r_UserID = u, r_ClientID = c\<rparr>)"
  let ?p = "key newId"
  from a obtain h j where h: "GenerateFromPassword bc payload = Inr h"
    and j: "Marshal js \<lparr>r_ID = newId, r_PayloadHash = h, r_UserID = u, r_ClientID = c\<rparr> = Inr j"
    and walk: "\<not> under_a_value st ?p"
    and created: "created = (etcd_mkdirs st ?p)(?p \<mapsto> \<lparr>n_Dir = False, n_Value = j\<rparr>)"
    and t: "t = etcd_buildToken b64 delim newId payload"
    using etcd_Create_Inr by blast
  have node: "created ?p = Some \<lparr>n_Dir = False, n_Value = j\<rparr>"
    by (simp add: created)
  have rec: "Unmarshal js (reply_text js j) = Inr \<lparr>r_ID = newId, r_PayloadHash = h, r_UserID = u, r_ClientID = c\<rparr>"
    using a h j by (auto simp add: json_round_trip_def)
  have parse: "etcd_parseToken b64 delim t = Inr (newId, payload)"
    unfolding t using a by (intro etcd_parseToken_buildToken) auto
  have cmp: "CompareHashAndPassword bc h payload = None"
    using a h by blast
  have gone: "\<not> under_a_value (created(?p := None)) ?p"
    using under_a_value_deleted [OF walk] by (simp add: created)
  note R = etcd_Revoke_stored [where key = key and st = created and tid = newId, OF node rec parse cmp]
  show "\<forall>u'. u' \<noteq> u \<longrightarrow>
      etcd_refreshTokenRepo_Revoke bc b64 delim key js created u' t = Inl refresh_ErrorInvalidUserID"
    using R(1) by blast
  show "\<exists>revoked. etcd_refreshTokenRepo_Revoke bc b64 delim key js created u t = Inr revoked
      \<and> revoked (key newId) = None
      \<and> (\<forall>u''. etcd_refreshTokenRepo_Revoke bc b64 delim key js revoked u'' t = Inl refresh_ErrorInvalidToken)"
    using R(2) R(3) [OF gone] by (intro exI[of _ "created(key newId := None)"]) simp
next
  assume a: "mongo_refreshTokenRepo_Create bc bs b64 delim (Inr payload) newOid cc u c = Inr (mt, mcreated)
      \<and> mt \<noteq> []
      \<and> delim \<notin> set (Hex bs newOid) \<and> IsObjectIdHex bs (Hex bs newOid)
      \<and> ObjectIdHex bs (Hex bs newOid) = newOid
      \<and> DecodeString b64 (EncodeToString b64 payload) = Inr payload
      \<and> (\<forall>h. GenerateFromPassword bc payload = Inr h \<longrightarrow> CompareHashAndPassword bc h payload = None)"
  then have cr: "mongo_refreshTokenRepo_Create bc bs b64 delim (Inr payload) newOid cc u c = Inr (mt, mcreated)"
    and ne: "mt \<noteq> []"
    by simp_all
  from mongo_Create_Inr [OF cr ne]
  obtain h where h: "GenerateFromPassword bc payload = Inr h"
    and created: "mcreated = cc(newOid \<mapsto> \<lparr>mr_ID = newOid, mr_PayloadHash = h, mr_UserID = u, mr_ClientID = c\<rparr>)"
    and t: "mt = mongo_buildToken bs b64 delim newOid payload"
    by blast
  have rec: "mcreated newOid = Some \<lparr>mr_ID = newOid, mr_PayloadHash = h, mr_UserID = u, mr_ClientID = c\<rparr>"
    by (simp add: created)
  have parse: "mongo_parseToken bs b64 delim mt = Inr (newOid, payload)"
    unfolding t using a by (intro mongo_parseToken_buildToken) auto
  have cmp: "CompareHashAndPassword bc h payload = None"
    using a h by blast
  note R = mongo_Revoke_stored [where cc = mcreated and tid = newOid, OF rec parse cmp]
  show "\<forall>u'. u' \<noteq> u \<longrightarrow>
      mongo_refreshTokenRepo_Revoke bc bs b64 delim mcreated u' mt = Inl refresh_ErrorInvalidUserID"
    using R(1) by blast
  show "\<exists>revoked. mongo_refreshTokenRepo_Revoke bc bs b64 delim mcreated u mt = Inr revoked
      \<and> revoked newOid = None
      \<and> (\<forall>u''. mongo_refreshTokenRepo_Revoke bc bs b64 delim revoked u'' mt = Inl refresh_ErrorInvalidToken)"
    using R(2) R(3) by (intro exI[of _ "mcreated(newOid := None)"]) simp
qed

text \<open>The theorem above at the token \<^verbatim>\<open>0a/cGF5\<close> of user alice and client app.\<close>

theorem refreshToken_Revoke_one_shot_witness:
  "(case etcd_refreshTokenRepo_Create standin_bcrypt standin_base64 CHR ''/''
           (\<lambda>i. ''/dex/refresh_token/'' @ i) standin_json_refreshToken (Inr [112, 97, 121]) ''0a''
           Map.empty ''alice'' ''app'' of
      Inl err \<Rightarrow> False
    | Inr r \<Rightarrow>
        etcd_refreshTokenRepo_Revoke standin_bcrypt standin_base64 CHR ''/''
            (\<lambda>i. ''/dex/refresh_token/'' @ i) standin_json_refreshToken (snd r) ''mallory'' (fst r)
          = Inl refresh_ErrorInvalidUserID
        \<and> (\<exists>revoked. etcd_refreshTokenRepo_Revoke standin_bcrypt standin_base64 CHR ''/''
                (\<lambda>i. ''/dex/refresh_token/'' @ i) standin_json_refreshToken (snd r) ''alice'' (fst r)
              = Inr revoked
              \<and> revoked ''/dex/refresh_token/0a'' = None
              \<and> etcd_refreshTokenRepo_Revoke standin_bcrypt standin_base64 CHR ''/''
                    (\<lambda>i. ''/dex/refresh_token/'' @ i) standin_json_refreshToken revoked ''alice'' (fst r)
                  = Inl refresh_ErrorInvalidToken))
   \<and> (case mongo_refreshTokenRepo_Create standin_bcrypt standin_bson standin_base64 CHR ''/''
           (Inr [112, 97, 121]) ''5f1b2c3d4e5f60718293a4b5'' Map.empty ''alice'' ''app'' of
      Inl err \<Rightarrow> False
    | Inr r \<Rightarrow>
        mongo_refreshTokenRepo_Revoke standin_bcrypt standin_bson standin_base64 CHR ''/''
            (snd r) ''mallory'' (fst r)
          = Inl refresh_ErrorInvalidUserID
        \<and> (\<exists>revoked. mongo_refreshTokenRepo_Revoke standin_bcrypt standin_bson standin_base64 CHR ''/''
                (snd r) ''alice'' (fst r)
              = Inr revoked
              \<and> revoked ''5f1b2c3d4e5f60718293a4b5'' = None
              \<and> mongo_refreshTokenRepo_Revoke standin_bcrypt standin_bson standin_base64 CHR ''/''
                    revoked ''alice'' (fst r)
                  = Inl refresh_ErrorInvalidToken))"
proof -
  let ?key = "\<lambda>i. ''/dex/refresh_token/'' @ i"
  let ?js = "standin_json_refreshToken"
  obtain t created where c:
    "etcd_refreshTokenRepo_Create standin_bcrypt standin_base64 CHR ''/'' ?key ?js (Inr [112, 97, 121]) ''0a''
       Map.empty ''alice'' ''app'' = Inr (t, created)"
    by (simp add: etcd_refreshTokenRepo_Create_def etcd_refreshTokenRepo_insert_def kAPI_Create_def
        under_a_value_empty)
  obtain mt mcreated where mc:
    "mongo_refreshTokenRepo_Create standin_bcrypt standin_bson standin_base64 CHR ''/'' (Inr [112, 97, 121])
       ''5f1b2c3d4e5f60718293a4b5'' Map.empty ''alice'' ''app'' = Inr (mt, mcreated)"
    and mt: "mt \<noteq> []"
    by (simp add: mongo_refreshTokenRepo_Create_def mgo_Insert_def mongo_buildToken_def Let_def)
  have e: "(\<forall>u'. u' \<noteq> ''alice'' \<longrightarrow>
            etcd_refreshTokenRepo_Revoke standin_bcrypt standin_base64 CHR ''/'' ?key ?js created u' t
              = Inl refresh_ErrorInvalidUserID)
        \<and> (\<exists>revoked. etcd_refreshTokenRepo_Revoke standin_bcrypt standin_base64 CHR ''/'' ?key ?js created ''alice'' t
              = Inr revoked
              \<and> revoked (?key ''0a'') = None
              \<and> (\<forall>u''. etcd_refreshTokenRepo_Revoke standin_bcrypt standin_base64 CHR ''/'' ?key ?js revoked u'' t
                          = Inl refresh_ErrorInvalidToken))"
  proof (rule refreshToken_Revoke_one_shot [where bc = standin_bcrypt and ?b64.0 = standin_base64
        and delim = "CHR ''/''" and key = ?key and js = ?js and payload = "[112, 97, 121]"
        and newId = "''0a''" and st = Map.empty and u = "''alice''" and c = "''app''"
        and t = t and created = created, THEN conjunct1, THEN mp], intro conjI)
    show "etcd_refreshTokenRepo_Create standin_bcrypt standin_base64 CHR ''/'' ?key ?js (Inr [112, 97, 121]) ''0a''
       Map.empty ''alice'' ''app'' = Inr (t, created)"
      by (rule c)
    show "CHR ''/'' \<notin> set ''0a''" by simp
    show "DecodeString standin_base64 (EncodeToString standin_base64 [112, 97, 121]) = Inr [112, 97, 121]"
      by simp
    show "\<forall>h. GenerateFromPassword standin_bcrypt [112, 97, 121] = Inr h \<longrightarrow>
            CompareHashAndPassword standin_bcrypt h [112, 97, 121] = None
            \<and> json_round_trip ?js \<lparr>r_ID = ''0a'', r_PayloadHash = h, r_UserID = ''alice'', r_ClientID = ''app''\<rparr>"
      by (auto simp add: json_round_trip_def)
  qed
  have m: "(\<forall>u'. u' \<noteq> ''alice'' \<longrightarrow>
            mongo_refreshTokenRepo_Revoke standin_bcrypt standin_bson standin_base64 CHR ''/'' mcreated u' mt
              = Inl refresh_ErrorInvalidUserID)
        \<and> (\<exists>revoked. mongo_refreshTokenRepo_Revoke standin_bcrypt standin_bson standin_base64 CHR ''/'' mcreated ''alice'' mt
              = Inr revoked
              \<and> revoked ''5f1b2c3d4e5f60718293a4b5'' = None
              \<and> (\<forall>u''. mongo_refreshTokenRepo_Revoke standin_bcrypt standin_bson standin_base64 CHR ''/'' revoked u'' mt
                          = Inl refresh_ErrorInvalidToken))"
  proof (rule refreshToken_Revoke_one_shot [where bc = standin_bcrypt and ?b64.0 = standin_base64
        and bs = standin_bson and delim = "CHR ''/''" and payload = "[112, 97, 121]"
        and newOid = "''5f1b2c3d4e5f60718293a4b5''" and cc = Map.empty and u = "''alice''" and c = "''app''"
        and mt = mt and mcreated = mcreated, THEN conjunct2, THEN mp], intro conjI)
    show "mongo_refreshTokenRepo_Create standin_bcrypt standin_bson standin_base64 CHR ''/'' (Inr [112, 97, 121])
       ''5f1b2c3d4e5f60718293a4b5'' Map.empty ''alice'' ''app'' = Inr (mt, mcreated)"
      by (rule mc)
    show "mt \<noteq> []" by (rule mt)
    show "CHR ''/'' \<notin> set (Hex standin_bson ''5f1b2c3d4e5f60718293a4b5'')" by simp
    show "IsObjectIdHex standin_bson (Hex standin_bson ''5f1b2c3d4e5f60718293a4b5'')" by simp
    show "ObjectIdHex standin_bson (Hex standin_bson ''5f1b2c3d4e5f60718293a4b5'') = ''5f1b2c3d4e5f60718293a4b5''"
      by simp
    show "DecodeString standin_base64 (EncodeToString standin_base64 [112, 97, 121]) = Inr [112, 97, 121]"
      by simp
    show "\<forall>h. GenerateFromPassword standin_bcrypt [112, 97, 121] = Inr h \<longrightarrow>
            CompareHashAndPassword standin_bcrypt h [112, 97, 121] = None"
      by auto
  qed
  have e': "etcd_refreshTokenRepo_Revoke standin_bcrypt standin_base64 CHR ''/'' ?key ?js created ''mallory'' t
          = Inl refresh_ErrorInvalidUserID
        \<and> (\<exists>revoked. etcd_refreshTokenRepo_Revoke standin_bcrypt standin_base64 CHR ''/'' ?key ?js created ''alice'' t
              = Inr revoked
              \<and> revoked ''/dex/refresh_token/0a'' = None
              \<and> etcd_refreshTokenRepo_Revoke standin_bcrypt standin_base64 CHR ''/'' ?key ?js revoked ''alice'' t
                  = Inl refresh_ErrorInvalidToken)"
    using e by auto
  have m': "mongo_refreshTokenRepo_Revoke standin_bcrypt standin_bson standin_base64 CHR ''/'' mcreated ''mallory'' mt
          = Inl refresh_ErrorInvalidUserID
        \<and> (\<exists>revoked. mongo_refreshTokenRepo_Revoke standin_bcrypt standin_bson standin_base64 CHR ''/'' mcreated ''alice'' mt
              = Inr revoked
              \<and> revoked ''5f1b2c3d4e5f60718293a4b5'' = None
              \<and> mongo_refreshTokenRepo_Revoke standin_bcrypt standin_bson standin_base64 CHR ''/'' revoked ''alice'' mt
                  = Inl refresh_ErrorInvalidToken)"
    using m by auto
  show ?thesis
    unfolding c mc sum.case fst_conv snd_conv by (intro conjI e' m')
qed

text \<open>
  Claim C3 fails on MongoDB. When \<^verbatim>\<open>Insert\<close> fails (here: the new object id is in
  use), \<^verbatim>\<open>Create\<close> returns the empty token with a nil error, and \<^verbatim>\<open>Verify\<close> of that
  token for the same client returns \<^verbatim>\<open>ErrorInvalidToken\<close>, not the user. On etcd
  \<^verbatim>\<open>Create\<close> returns the error of the insert.
\<close>

theorem mongo_refreshToken_Create_swallows_Insert_error:
  "(case mongo_refreshTokenRepo_Create standin_bcrypt standin_bson standin_base64
      CHR ''/'' (Inr [112, 97, 121]) ''5f1b2c3d4e5f60718293a4b5''
      [''5f1b2c3d4e5f60718293a4b5'' \<mapsto> \<lparr>mr_ID = ''5f1b2c3d4e5f60718293a4b5'', mr_PayloadHash = [1], mr_UserID = ''bob'', mr_ClientID = ''app''\<rparr>]
      ''alice'' ''app'' of
      Inl err \<Rightarrow> None
    | Inr r \<Rightarrow> Some (fst r, mongo_refreshTokenRepo_Verify standin_bcrypt standin_bson standin_base64
      CHR ''/'' (snd r) ''app'' (fst r)))
   = Some ([], Inl refresh_ErrorInvalidToken)
   \<and> etcd_refreshTokenRepo_Create standin_bcrypt standin_base64
      CHR ''/'' (\<lambda>i. ''/dex/refresh_token/'' @ i) standin_json_refreshToken (Inr [112, 97, 121]) ''0a''
      [''/dex/refresh_token/0a'' \<mapsto>
         \<lparr>n_Dir = False, n_Value = ''{id:0a,payload_hash:AQ==,user_id:bob,client_id:app}''\<rparr>]
      ''alice'' ''app''
     = Inl (EtcdError ErrorCodeNodeExist)"
  by (simp add: mongo_refreshTokenRepo_Create_def mgo_Insert_def mongo_refreshTokenRepo_Verify_def
      mongo_parseToken_def Let_def etcd_refreshTokenRepo_Create_def etcd_refreshTokenRepo_insert_def kAPI_Create_def)

lemma etcd_parseToken_cut:
  "delim \<notin> set tid \<Longrightarrow>
   etcd_parseToken b64 delim (tid @ delim # rest)
     = (case DecodeString b64 rest of
          Inl err \<Rightarrow> Inl refresh_ErrorInvalidToken
        | Inr p \<Rightarrow> Inr (tid, p))"
  by (simp add: etcd_parseToken_def SplitN_2_first split: sum.splits)

text \<open>
  The round trip on etcd. Let \<^verbatim>\<open>Create(u, c)\<close> return the token \<open>t\<close>, with bcrypt
  accepting the payload against the hash it made of it, base64 decoding what it
  encoded, the delimiter not in the token id, and the record coming back from the key
  space as it was written. Then \<^verbatim>\<open>Verify(c, t)\<close> returns \<open>u\<close>; \<^verbatim>\<open>Verify(c', t)\<close> for
  every other client returns \<^verbatim>\<open>ErrorInvalidClientID\<close>; and \<^verbatim>\<open>Verify\<close> of the token id
  followed by another payload text returns \<^verbatim>\<open>ErrorInvalidToken\<close>, both when the text
  does not decode and when it decodes to a payload that bcrypt reports as not matching
  the stored hash.
\<close>

theorem etcd_refreshToken_round_trip:
  assumes create: "etcd_refreshTokenRepo_Create bc b64 delim key js (Inr payload) newId st u c = Inr (t, created)"
    and delim: "delim \<notin> set newId"
    and b64: "DecodeString b64 (EncodeToString b64 payload) = Inr payload"
    and bcrypt: "\<forall>h. GenerateFromPassword bc payload = Inr h \<longrightarrow>
                   CompareHashAndPassword bc h payload = None
                   \<and> json_round_trip js \<lparr>r_ID = newId, r_PayloadHash = h, r_UserID = u, r_ClientID = c\<rparr>"
  shows "etcd_refreshTokenRepo_Verify bc b64 delim key js created c t = Inr u
     \<and> (\<forall>c'. c' \<noteq> c \<longrightarrow>
           etcd_refreshTokenRepo_Verify bc b64 delim key js created c' t = Inl refresh_ErrorInvalidClientID)
     \<and> (\<forall>rest. (\<exists>err. DecodeString b64 rest = Inl err) \<longrightarrow>
           etcd_refreshTokenRepo_Verify bc b64 delim key js created c (newId @ delim # rest)
             = Inl refresh_ErrorInvalidToken)
     \<and> (\<forall>rest p. DecodeString b64 rest = Inr p
             \<and> (\<forall>h. GenerateFromPassword bc payload = Inr h \<longrightarrow>
                    CompareHashAndPassword bc h p = Some ErrMismatchedHashAndPassword) \<longrightarrow>
           etcd_refreshTokenRepo_Verify bc b64 delim key js created c (newId @ delim # rest)
             = Inl refresh_ErrorInvalidToken)"
proof -
  let ?p = "key newId"
  from etcd_Create_Inr [OF create] obtain h j where h: "GenerateFromPassword bc payload = Inr h"
    and j: "Marshal js \<lparr>r_ID = newId, r_PayloadHash = h, r_UserID = u, r_ClientID = c\<rparr> = Inr j"
    and created: "created = (etcd_mkdirs st ?p)(?p \<mapsto> \<lparr>n_Dir = False, n_Value = j\<rparr>)"
    and t: "t = etcd_buildToken b64 delim newId payload"
    by blast
  have node: "created ?p = Some \<lparr>n_Dir = False, n_Value = j\<rparr>"
    by (simp add: created)
  have rec: "Unmarshal js (reply_text js j) = Inr \<lparr>r_ID = newId, r_PayloadHash = h, r_UserID = u, r_ClientID = c\<rparr>"
    using bcrypt h j by (auto simp add: json_round_trip_def)
  have parse: "etcd_parseToken b64 delim t = Inr (newId, payload)"
    unfolding t using delim b64 by (rule etcd_parseToken_buildToken)
  have cmp: "CompareHashAndPassword bc h payload = None"
    using bcrypt h by blast
  note V = etcd_Verify_stored [where key = key and st = created and tid = newId, OF node rec parse]
  have ok: "etcd_refreshTokenRepo_Verify bc b64 delim key js created c t = Inr u"
    using V(1) cmp by blast
  have client: "etcd_refreshTokenRepo_Verify bc b64 delim key js created c' t = Inl refresh_ErrorInvalidClientID"
    if "c' \<noteq> c" for c'
    using V(2) that by blast
  have unparsed: "etcd_refreshTokenRepo_Verify bc b64 delim key js created c (newId @ delim # rest)
             = Inl refresh_ErrorInvalidToken" if "\<exists>err. DecodeString b64 rest = Inl err" for rest
    using that delim by (auto simp add: etcd_refreshTokenRepo_Verify_def etcd_parseToken_cut)
  have mismatch: "etcd_refreshTokenRepo_Verify bc b64 delim key js created c (newId @ delim # rest)
             = Inl refresh_ErrorInvalidToken"
    if "DecodeString b64 rest = Inr p
             \<and> (\<forall>h. GenerateFromPassword bc payload = Inr h \<longrightarrow>
                    CompareHashAndPassword bc h p = Some ErrMismatchedHashAndPassword)" for rest p
  proof -
    have p: "etcd_parseToken b64 delim (newId @ delim # rest) = Inr (newId, p)"
      using that delim by (simp add: etcd_parseToken_cut)
    have "CompareHashAndPassword bc h p = Some ErrMismatchedHashAndPassword"
      using that h by blast
    then show ?thesis
      using etcd_Verify_stored(3) [where key = key and st = created and tid = newId, OF node rec p] by blast
  qed
  show ?thesis
    using ok client unparsed mismatch by blast
qed

text \<open>
  The round trip at the token \<^verbatim>\<open>0a/cGF5\<close>, with another client, with a payload text that
  does not decode and with one that decodes to other bytes.
\<close>

theorem etcd_refreshToken_round_trip_witness:
  "(case etcd_refreshTokenRepo_Create standin_bcrypt standin_base64 CHR ''/''
           (\<lambda>i. ''/dex/refresh_token/'' @ i) standin_json_refreshToken (Inr [112, 97, 121]) ''0a''
           Map.empty ''alice'' ''app'' of
      Inl err \<Rightarrow> False
    | Inr r \<Rightarrow>
        fst r = ''0a/cGF5''
        \<and> etcd_refreshTokenRepo_Verify standin_bcrypt standin_base64 CHR ''/''
            (\<lambda>i. ''/dex/refresh_token/'' @ i) standin_json_refreshToken (snd r) ''app'' (fst r)
          = Inr ''alice''
        \<and> etcd_refreshTokenRepo_Verify standin_bcrypt standin_base64 CHR ''/''
            (\<lambda>i. ''/dex/refresh_token/'' @ i) standin_json_refreshToken (snd r) ''other'' (fst r)
          = Inl refresh_ErrorInvalidClientID
        \<and> etcd_refreshTokenRepo_Verify standin_bcrypt standin_base64 CHR ''/''
            (\<lambda>i. ''/dex/refresh_token/'' @ i) standin_json_refreshToken (snd r) ''app'' ''0a/cGF6''
          = Inl refresh_ErrorInvalidToken
        \<and> etcd_refreshTokenRepo_Verify standin_bcrypt standin_base64 CHR ''/''
            (\<lambda>i. ''/dex/refresh_token/'' @ i) standin_json_refreshToken (snd r) ''app''
            (''0a/'' @ replicate 100 CHR ''A'')
          = Inl refresh_ErrorInvalidToken)"
proof -
  let ?key = "\<lambda>i. ''/dex/refresh_token/'' @ i"
  let ?js = "standin_json_refreshToken"
  obtain created where c:
    "etcd_refreshTokenRepo_Create standin_bcrypt standin_base64 CHR ''/'' ?key ?js (Inr [112, 97, 121]) ''0a''
       Map.empty ''alice'' ''app'' = Inr (''0a/cGF5'', created)"
    by (simp add: etcd_refreshTokenRepo_Create_def etcd_refreshTokenRepo_insert_def kAPI_Create_def
        under_a_value_empty etcd_buildToken_def)
  have ne: "''cGF6'' \<noteq> replicate 100 CHR ''A''" "replicate 100 CHR ''A'' \<noteq> ''cGF5''"
    "[121, 97, 112] \<noteq> replicate 75 (0 :: 8 word)"
    by (auto dest: arg_cong [where f = length])
  have bad: "\<exists>err. DecodeString standin_base64 ''cGF6'' = Inl err"
    using ne by simp
  have long: "DecodeString standin_base64 (replicate 100 CHR ''A'') = Inr (replicate 75 0)
      \<and> (\<forall>h. GenerateFromPassword standin_bcrypt [112, 97, 121] = Inr h \<longrightarrow>
            CompareHashAndPassword standin_bcrypt h (replicate 75 0) = Some ErrMismatchedHashAndPassword)"
    using ne by auto
  have T': "etcd_refreshTokenRepo_Verify standin_bcrypt standin_base64 CHR ''/'' ?key ?js created ''app'' ''0a/cGF5'' = Inr ''alice''
     \<and> (\<forall>c'. c' \<noteq> ''app'' \<longrightarrow>
           etcd_refreshTokenRepo_Verify standin_bcrypt standin_base64 CHR ''/'' ?key ?js created c' ''0a/cGF5'' = Inl refresh_ErrorInvalidClientID)
     \<and> (\<forall>rest. (\<exists>err. DecodeString standin_base64 rest = Inl err) \<longrightarrow>
           etcd_refreshTokenRepo_Verify standin_bcrypt standin_base64 CHR ''/'' ?key ?js created ''app'' (''0a'' @ CHR ''/'' # rest)
             = Inl refresh_ErrorInvalidToken)
     \<and> (\<forall>rest p. DecodeString standin_base64 rest = Inr p
             \<and> (\<forall>h. GenerateFromPassword standin_bcrypt [112, 97, 121] = Inr h \<longrightarrow>
                    CompareHashAndPassword standin_bcrypt h p = Some ErrMismatchedHashAndPassword) \<longrightarrow>
           etcd_refreshTokenRepo_Verify standin_bcrypt standin_base64 CHR ''/'' ?key ?js created ''app'' (''0a'' @ CHR ''/'' # rest)
             = Inl refresh_ErrorInvalidToken)"
  proof (rule etcd_refreshToken_round_trip [where bc = standin_bcrypt and ?b64.0 = standin_base64
      and delim = "CHR ''/''" and key = ?key and js = ?js and payload = "[112, 97, 121]" and newId = "''0a''"
      and st = Map.empty and u = "''alice''" and c = "''app''" and t = "''0a/cGF5''"
      and created = created, OF c])
    show "CHR ''/'' \<notin> set ''0a''" by simp
    show "DecodeString standin_base64 (EncodeToString standin_base64 [112, 97, 121]) = Inr [112, 97, 121]"
      by simp
    show "\<forall>h. GenerateFromPassword standin_bcrypt [112, 97, 121] = Inr h \<longrightarrow>
            CompareHashAndPassword standin_bcrypt h [112, 97, 121] = None
            \<and> json_round_trip ?js \<lparr>r_ID = ''0a'', r_PayloadHash = h, r_UserID = ''alice'', r_ClientID = ''app''\<rparr>"
      by (auto simp add: json_round_trip_def)
  qed
  have w1: "etcd_refreshTokenRepo_Verify standin_bcrypt standin_base64 CHR ''/'' ?key ?js created ''app'' ''0a/cGF5'' = Inr ''alice''"
    using T' by blast
  have w2: "etcd_refreshTokenRepo_Verify standin_bcrypt standin_base64 CHR ''/'' ?key ?js created ''other'' ''0a/cGF5'' = Inl refresh_ErrorInvalidClientID"
    using T' [THEN conjunct2, THEN conjunct1, THEN spec, of "''other''"] by simp
  have w3: "etcd_refreshTokenRepo_Verify standin_bcrypt standin_base64 CHR ''/'' ?key ?js created ''app'' (''0a'' @ CHR ''/'' # ''cGF6'') = Inl refresh_ErrorInvalidToken"
    using T' [THEN conjunct2, THEN conjunct2, THEN conjunct1, THEN spec, of "''cGF6''", THEN mp, OF bad] .
  have w4: "etcd_refreshTokenRepo_Verify standin_bcrypt standin_base64 CHR ''/'' ?key ?js created ''app'' (''0a'' @ CHR ''/'' # replicate 100 CHR ''A'') = Inl refresh_ErrorInvalidToken"
    using T' [THEN conjunct2, THEN conjunct2, THEN conjunct2, THEN spec, THEN spec,
        of "replicate 100 CHR ''A''" "replicate 75 0", THEN mp, OF long] .
  have w3': "etcd_refreshTokenRepo_Verify standin_bcrypt standin_base64 CHR ''/'' ?key ?js created ''app'' ''0a/cGF6'' = Inl refresh_ErrorInvalidToken"
    using w3 by simp
  have w4': "etcd_refreshTokenRepo_Verify standin_bcrypt standin_base64 CHR ''/'' ?key ?js created ''app'' (''0a/'' @ replicate 100 CHR ''A'') = Inl refresh_ErrorInvalidToken"
    using w4 by simp
  show ?thesis
    unfolding c sum.case fst_conv snd_conv by (intro conjI refl w1 w2 w3' w4')
qed

subsection \<open>Private key sets\<close>

lemma check_secrets_None_iff:
  "check_secrets i secs = None \<longleftrightarrow> (\<forall>s\<in>set secs. length s = 32)"
  by (induction secs arbitrary: i) auto

text \<open>
  The etcd constructor returns a repository exactly when it is given at least one secret
  and every secret is 32 bytes long.
\<close>

theorem etcd_NewPrivateKeySetRepo_Inr_iff:
  "(\<exists>r. etcd_NewPrivateKeySetRepo useOld secs = Inr r) \<longleftrightarrow>
     secs \<noteq> [] \<and> (\<forall>s\<in>set secs. length s = 32)"
  using check_secrets_None_iff [of 0 secs]
  by (auto simp add: etcd_NewPrivateKeySetRepo_def split: option.splits)

text \<open>The constructor at two 32-byte secrets, at no secret, and at a six-byte secret.\<close>

theorem etcd_NewPrivateKeySetRepo_Inr_iff_witness:
  "(\<exists>r. etcd_NewPrivateKeySetRepo False [replicate 32 1, replicate 32 2] = Inr r)
   \<and> \<not> (\<exists>r. etcd_NewPrivateKeySetRepo False [] = Inr r)
   \<and> \<not> (\<exists>r. etcd_NewPrivateKeySetRepo False [replicate 32 1, [115, 104, 97, 114, 107, 115]] = Inr r)"
  using etcd_NewPrivateKeySetRepo_Inr_iff [of False "[replicate 32 1, replicate 32 2]"]
    etcd_NewPrivateKeySetRepo_Inr_iff [of False "[]"]
    etcd_NewPrivateKeySetRepo_Inr_iff [of False "[replicate 32 1, [115, 104, 97, 114, 107, 115]]"]
  by simp

lemma mongo_NewPrivateKeySetRepo_Inr_iff:
  "(\<exists>r. mongo_NewPrivateKeySetRepo useOld secs = Inr r) \<longleftrightarrow> (\<forall>s\<in>set secs. length s = 32)"
  using check_secrets_None_iff [of 0 secs]
  by (auto simp add: mongo_NewPrivateKeySetRepo_def split: option.splits)

text \<open>
  Claim C10 fails on MongoDB. \<^verbatim>\<open>MongoDBDriver.NewPrivateKeySetRepo\<close> with no secret
  returns a repository and no error, where the etcd constructor returns
  \<^verbatim>\<open>must provide at least one key secret\<close>. The driver's own test
  \<^verbatim>\<open>TestNewPrivateKeySetRepoInvalidKey\<close> expects an error from both of its calls: the
  six-byte secret \<^verbatim>\<open>sharks\<close> is refused, the empty list is not.
\<close>

theorem mongo_NewPrivateKeySetRepo_no_secrets:
  "mongo_NewPrivateKeySetRepo False [] = Inr \<lparr>useOldFormat = False, secrets = []\<rparr>
   \<and> etcd_NewPrivateKeySetRepo False [] = Inl must_provide_at_least_one_key_secret
   \<and> mongo_NewPrivateKeySetRepo False [[115, 104, 97, 114, 107, 115]] = Inl (expected_32_byte_secret 0)"
  by (simp add: mongo_NewPrivateKeySetRepo_def etcd_NewPrivateKeySetRepo_def)

text \<open>
  Claim C5 fails on etcd. \<^verbatim>\<open>Set\<close> writes the ciphertext as \<^verbatim>\<open>string(v)\<close>, and the value
  that \<^verbatim>\<open>Get\<close> reads has every byte that is not valid UTF-8 replaced by U+FFFD, which is
  three bytes: a ciphertext with such a byte does not come back, and no secret decrypts
  what comes back. Here the secret \<open>A\<close> is 32 bytes \<open>0xFF\<close> and the ciphertext begins with
  them: after \<^verbatim>\<open>Set\<close> under \<open>A\<close> on the empty key space, \<^verbatim>\<open>Get\<close> with the secrets \<open>[B, A]\<close>,
  and with \<open>[A]\<close> alone, returns \<^verbatim>\<open>ErrorCannotDecryptKeys\<close>. On MongoDB, which stores
  the bytes, the same calls return the key set.
\<close>

theorem etcd_PrivateKeySet_Get_after_Set_cannot_decrypt:
  "(case etcd_PrivateKeySetRepo_Set standin_keylibs \<lparr>useOldFormat = False, secrets = [replicate 32 255]\<rparr>
           ''/dex/key'' Map.empty
           (a_PrivateKeySet \<lparr>keys = [\<lparr>KeyID = ''k1'', PrivateKey = 7\<rparr>], expiresAt = 99\<rparr>) of
      Panic \<Rightarrow> None
    | Value r \<Rightarrow>
        Some (fst r,
              etcd_PrivateKeySetRepo_Get standin_keylibs standin_reply
                \<lparr>useOldFormat = False, secrets = [replicate 32 2, replicate 32 255]\<rparr> ''/dex/key'' (snd r),
              etcd_PrivateKeySetRepo_Get standin_keylibs standin_reply
                \<lparr>useOldFormat = False, secrets = [replicate 32 255]\<rparr> ''/dex/key'' (snd r)))
   = Some (None, Inl db_ErrorCannotDecryptKeys, Inl db_ErrorCannotDecryptKeys)
   \<and> (case mongo_PrivateKeySetRepo_Set standin_keylibs \<lparr>useOldFormat = False, secrets = [replicate 32 255]\<rparr>
           []
           (a_PrivateKeySet \<lparr>keys = [\<lparr>KeyID = ''k1'', PrivateKey = 7\<rparr>], expiresAt = 99\<rparr>) of
      Panic \<Rightarrow> None
    | Value r \<Rightarrow>
        Some (fst r,
              mongo_PrivateKeySetRepo_Get standin_keylibs
                \<lparr>useOldFormat = False, secrets = [replicate 32 2, replicate 32 255]\<rparr> (snd r),
              mongo_PrivateKeySetRepo_Get standin_keylibs
                \<lparr>useOldFormat = False, secrets = [replicate 32 255]\<rparr> (snd r)))
   = Some (None, Inr (Some \<lparr>keys = [\<lparr>KeyID = ''k1'', PrivateKey = 7\<rparr>], expiresAt = 99\<rparr>),
                 Inr (Some \<lparr>keys = [\<lparr>KeyID = ''k1'', PrivateKey = 7\<rparr>], expiresAt = 99\<rparr>))"
proof -
  have e: "replicate 32 x = x # replicate 31 x" for x :: "8 word"
    using replicate_Suc [of 31 x] by simp
  have r: "replicate 32 (2::8 word) \<noteq> replicate 32 255"
    by simp
  have mangled: "take 32 (concat (map (\<lambda>b. if b < 128 then [b] else [239, 191, 189])
                    (replicate 32 (255::8 word) @ [7]))) \<noteq> replicate 32 255"
    unfolding e by simp
  have other: "take 32 (concat (map (\<lambda>b. if b < 128 then [b] else [239, 191, 189])
                    (replicate 32 (255::8 word) @ [7]))) \<noteq> replicate 32 2"
    unfolding e by simp
  show ?thesis
    using r mangled other
    by (simp add: etcd_PrivateKeySetRepo_Set_def Set_blob_def active_def newPrivateKeySetModel_def
        kAPI_Delete_def kAPI_Set_PrevIgnore_def kAPI_Create_def under_a_value_empty etcd_missing_def
        etcd_PrivateKeySetRepo_Get_def kAPI_Get_def Get_result_def
        mongo_PrivateKeySetRepo_Set_def mongo_PrivateKeySetRepo_Get_def
        privateKeySetModel_PrivateKeySet_def privateKeyModel_PrivateKey_def)
qed

lemma PrivateKeySet_loop_round_trip:
  "\<forall>k\<in>set ks. ParsePKCS1PrivateKey lib (MarshalPKCS1PrivateKey lib (PrivateKey k)) = Inr (PrivateKey k) \<Longrightarrow>
   PrivateKeySet_loop lib
     (map (\<lambda>pkey. \<lparr>pkm_ID = KeyID pkey, pkm_PKCS1 = MarshalPKCS1PrivateKey lib (PrivateKey pkey)\<rparr>) ks)
   = Inr ks"
  by (induction ks) (auto simp add: privateKeyModel_PrivateKey_def)

lemma privateKeySetModel_round_trip:
  "\<forall>k\<in>set (keys pks). ParsePKCS1PrivateKey lib (MarshalPKCS1PrivateKey lib (PrivateKey k)) = Inr (PrivateKey k) \<Longrightarrow>
   privateKeySetModel_PrivateKeySet lib (newPrivateKeySetModel lib pks) = Inr pks"
  by (simp add: privateKeySetModel_PrivateKeySet_def newPrivateKeySetModel_def
      PrivateKeySet_loop_round_trip)

lemma Get_loop_first_success:
  assumes fail: "\<forall>s\<in>set bs.
        (case (if useOldFormat r then AESDecrypt lib v s else Decrypt lib v s) of
           Inl e \<Rightarrow> True
         | Inr j' \<Rightarrow>
             (case json_Unmarshal lib j' of
                Inl e \<Rightarrow> True
              | Inr m' \<Rightarrow> (case privateKeySetModel_PrivateKeySet lib m' of Inl e \<Rightarrow> True | Inr p \<Rightarrow> False)))"
    and dec: "(if useOldFormat r then AESDecrypt lib v a else Decrypt lib v a) = Inr j"
    and json: "json_Unmarshal lib j = Inr m"
    and model: "privateKeySetModel_PrivateKeySet lib m = Inr pks"
  shows "Get_loop lib r v (bs @ a # rest) state = (Some pks, None)"
  using fail
proof (induction bs arbitrary: state)
  case Nil
  show ?case using dec json model by (simp split: if_splits)
next
  case (Cons b bs)
  then show ?case by (auto split: if_splits sum.splits)
qed

lemma Get_loop_all_fail:
  assumes "\<forall>s\<in>set cs.
        (case (if useOldFormat r then AESDecrypt lib v s else Decrypt lib v s) of
           Inl e \<Rightarrow> True
         | Inr j' \<Rightarrow>
             (case json_Unmarshal lib j' of
                Inl e \<Rightarrow> True
              | Inr m' \<Rightarrow> (case privateKeySetModel_PrivateKeySet lib m' of Inl e \<Rightarrow> True | Inr p \<Rightarrow> False)))"
    and "cs \<noteq> [] \<or> snd state \<noteq> None"
  shows "snd (Get_loop lib r v cs state) \<noteq> None"
  using assms
proof (induction cs arbitrary: state)
  case Nil
  then show ?case by simp
next
  case (Cons c cs)
  have step: "snd (Get_loop lib r v cs (x, Some e)) \<noteq> None" for x e
    using Cons.prems by (intro Cons.IH) auto
  show ?case
    using Cons.prems(1) step by (auto split: if_splits sum.splits)
qed

lemma Get_result_all_fail:
  "snd state \<noteq> None \<Longrightarrow> Get_result state = Inl db_ErrorCannotDecryptKeys"
  by (auto simp add: Get_result_def split: option.splits)

lemma Set_blob_Value:
  assumes "json_Marshal lib (newPrivateKeySetModel lib pks) = Inr j"
    and "(if old then AESEncrypt lib j a else Encrypt lib j a) = Inr v"
  shows "Set_blob lib \<lparr>useOldFormat = old, secrets = a # rest\<rparr> (a_PrivateKeySet pks) = Value (Inr v)"
  using assms by (simp add: Set_blob_def active_def split: if_splits)

text \<open>
  The rotation of key secrets on MongoDB. Let the libraries round-trip the key set \<open>pks\<close>
  under the secret \<open>A\<close>: x509 parses each key it marshalled, JSON parses the text \<open>j\<close> of
  the model back to the model, and the cipher of the repository's format decrypts under
  \<open>A\<close> the blob \<open>v\<close> it made of \<open>j\<close> under \<open>A\<close>; and let the attempt at \<open>v\<close> fail under
  every secret of \<open>W\<close>, at the cipher, at the JSON parser or at a key. Then \<^verbatim>\<open>Set\<close> by a
  repository whose first secret is \<open>A\<close> leaves \<open>v\<close> as the only blob, whatever was stored
  before; \<^verbatim>\<open>Get\<close> by a repository whose secrets are some of \<open>W\<close>, then \<open>A\<close>, then any
  others, returns \<open>pks\<close>; \<^verbatim>\<open>Get\<close> by a repository with at least one secret, all of \<open>W\<close>,
  returns \<^verbatim>\<open>ErrorCannotDecryptKeys\<close>; and \<^verbatim>\<open>Get\<close> on a collection with no blob returns
  \<^verbatim>\<open>ErrorNoKeys\<close>.
\<close>

theorem mongo_PrivateKeySet_Set_then_Get:
  assumes x509: "\<forall>k\<in>set (keys pks).
        ParsePKCS1PrivateKey lib (MarshalPKCS1PrivateKey lib (PrivateKey k)) = Inr (PrivateKey k)"
    and marshal: "json_Marshal lib (newPrivateKeySetModel lib pks) = Inr j"
    and unmarshal: "json_Unmarshal lib j = Inr (newPrivateKeySetModel lib pks)"
    and encrypt: "(if old then AESEncrypt lib j A else Encrypt lib j A) = Inr v"
    and decrypt: "(if old then AESDecrypt lib v A else Decrypt lib v A) = Inr j"
    and wrong: "\<forall>s\<in>W.
        (case (if old then AESDecrypt lib v s else Decrypt lib v s) of
           Inl e \<Rightarrow> True
         | Inr j' \<Rightarrow>
             (case json_Unmarshal lib j' of
                Inl e \<Rightarrow> True
              | Inr m' \<Rightarrow> (case privateKeySetModel_PrivateKeySet lib m' of Inl e \<Rightarrow> True | Inr p \<Rightarrow> False)))"
  shows "mongo_PrivateKeySetRepo_Set lib \<lparr>useOldFormat = old, secrets = A # rest\<rparr> col (a_PrivateKeySet pks)
           = Value (None, [v])
     \<and> (set bs \<subseteq> W \<longrightarrow>
          mongo_PrivateKeySetRepo_Get lib \<lparr>useOldFormat = old, secrets = bs @ A # later\<rparr> [v] = Inr (Some pks))
     \<and> (cs \<noteq> [] \<and> set cs \<subseteq> W \<longrightarrow>
          mongo_PrivateKeySetRepo_Get lib \<lparr>useOldFormat = old, secrets = cs\<rparr> [v]
            = Inl db_ErrorCannotDecryptKeys)
     \<and> mongo_PrivateKeySetRepo_Get lib r [] = Inl key_ErrorNoKeys"
proof -
  have blob: "Set_blob lib \<lparr>useOldFormat = old, secrets = A # rest\<rparr> (a_PrivateKeySet pks) = Value (Inr v)"
    using marshal encrypt by (rule Set_blob_Value)
  have model: "privateKeySetModel_PrivateKeySet lib (newPrivateKeySetModel lib pks) = Inr pks"
    using x509 by (rule privateKeySetModel_round_trip)
  have first: "Get_loop lib \<lparr>useOldFormat = old, secrets = ss\<rparr> v (bs @ A # later) state = (Some pks, None)"
    if "set bs \<subseteq> W" for ss state
  proof (rule Get_loop_first_success)
    show "\<forall>s\<in>set bs.
        (case (if useOldFormat \<lparr>useOldFormat = old, secrets = ss\<rparr> then AESDecrypt lib v s else Decrypt lib v s) of
           Inl e \<Rightarrow> True
         | Inr j' \<Rightarrow>
             (case json_Unmarshal lib j' of
                Inl e \<Rightarrow> True
              | Inr m' \<Rightarrow> (case privateKeySetModel_PrivateKeySet lib m' of Inl e \<Rightarrow> True | Inr p \<Rightarrow> False)))"
      using that wrong by auto
    show "(if useOldFormat \<lparr>useOldFormat = old, secrets = ss\<rparr> then AESDecrypt lib v A else Decrypt lib v A) = Inr j"
      using decrypt by simp
    show "json_Unmarshal lib j = Inr (newPrivateKeySetModel lib pks)" by (rule unmarshal)
    show "privateKeySetModel_PrivateKeySet lib (newPrivateKeySetModel lib pks) = Inr pks" by (rule model)
  qed
  have none: "Get_result (Get_loop lib \<lparr>useOldFormat = old, secrets = ss\<rparr> v cs (None, None))
                = Inl db_ErrorCannotDecryptKeys"
    if "cs \<noteq> []" "set cs \<subseteq> W" for ss
  proof (rule Get_result_all_fail, rule Get_loop_all_fail)
    show "\<forall>s\<in>set cs.
        (case (if useOldFormat \<lparr>useOldFormat = old, secrets = ss\<rparr> then AESDecrypt lib v s else Decrypt lib v s) of
           Inl e \<Rightarrow> True
         | Inr j' \<Rightarrow>
             (case json_Unmarshal lib j' of
                Inl e \<Rightarrow> True
              | Inr m' \<Rightarrow> (case privateKeySetModel_PrivateKeySet lib m' of Inl e \<Rightarrow> True | Inr p \<Rightarrow> False)))"
      using that wrong by auto
    show "cs \<noteq> [] \<or> snd (None, None) \<noteq> None" using that by simp
  qed
  have m1: "mongo_PrivateKeySetRepo_Set lib \<lparr>useOldFormat = old, secrets = A # rest\<rparr> col (a_PrivateKeySet pks)
           = Value (None, [v])"
    by (simp add: mongo_PrivateKeySetRepo_Set_def blob)
  have m2: "mongo_PrivateKeySetRepo_Get lib \<lparr>useOldFormat = old, secrets = bs @ A # later\<rparr> [v] = Inr (Some pks)"
    if "set bs \<subseteq> W"
    using first [OF that] by (simp add: mongo_PrivateKeySetRepo_Get_def Get_result_def)
  have m3: "mongo_PrivateKeySetRepo_Get lib \<lparr>useOldFormat = old, secrets = cs\<rparr> [v]
            = Inl db_ErrorCannotDecryptKeys" if "cs \<noteq> []" "set cs \<subseteq> W"
    using none [OF that] by (simp add: mongo_PrivateKeySetRepo_Get_def)
  have m4: "mongo_PrivateKeySetRepo_Get lib r [] = Inl key_ErrorNoKeys"
    by (simp add: mongo_PrivateKeySetRepo_Get_def)
  show ?thesis
    using m1 m2 m3 m4 by blast
qed

text \<open>
  The theorem above with 32-byte secrets: \<open>A\<close> is 32 bytes of 1, \<open>B\<close> of 2 and \<open>C\<close> of 3.
\<close>

theorem mongo_PrivateKeySet_Set_then_Get_witness:
  "mongo_PrivateKeySetRepo_Set standin_keylibs \<lparr>useOldFormat = False, secrets = [replicate 32 1]\<rparr>
       [[0, 0]] (a_PrivateKeySet \<lparr>keys = [\<lparr>KeyID = ''k1'', PrivateKey = 7\<rparr>], expiresAt = 99\<rparr>)
     = Value (None, [replicate 32 1 @ [7]])
   \<and> mongo_PrivateKeySetRepo_Get standin_keylibs \<lparr>useOldFormat = False, secrets = [replicate 32 2, replicate 32 1]\<rparr>
       [replicate 32 1 @ [7]]
     = Inr (Some \<lparr>keys = [\<lparr>KeyID = ''k1'', PrivateKey = 7\<rparr>], expiresAt = 99\<rparr>)
   \<and> mongo_PrivateKeySetRepo_Get standin_keylibs \<lparr>useOldFormat = False, secrets = [replicate 32 3]\<rparr>
       [replicate 32 1 @ [7]]
     = Inl db_ErrorCannotDecryptKeys
   \<and> mongo_PrivateKeySetRepo_Get standin_keylibs \<lparr>useOldFormat = False, secrets = [replicate 32 3]\<rparr> []
     = Inl key_ErrorNoKeys"
proof -
  have r: "replicate 32 (2::8 word) \<noteq> replicate 32 1" "replicate 32 (3::8 word) \<noteq> replicate 32 1"
    by simp_all
  show ?thesis
  using mongo_PrivateKeySet_Set_then_Get [where lib = standin_keylibs and old = False
      and pks = "\<lparr>keys = [\<lparr>KeyID = ''k1'', PrivateKey = 7\<rparr>], expiresAt = 99\<rparr>"
      and j = "[7]" and A = "replicate 32 1" and v = "replicate 32 1 @ [7]"
      and W = "{replicate 32 2, replicate 32 3}" and rest = "[]" and later = "[]"
      and bs = "[replicate 32 2]" and cs = "[replicate 32 3]" and col = "[[0, 0]]"
      and r = "\<lparr>useOldFormat = False, secrets = [replicate 32 3]\<rparr>"]
    r
  by (simp add: newPrivateKeySetModel_def)
qed

subsection \<open>Sessions\<close>

text \<open>
  Claim C6, as the code has it by design. \<^verbatim>\<open>Get(id)\<close> of a stored session, one whose
  record parses and converts to \<open>ses\<close>, compares the expiry time with the clock on every
  call: it fails with \<^verbatim>\<open>session does not exist\<close> when the expiry time is before the
  clock's reading, and returns \<open>ses\<close> otherwise, so also when the two are equal. What
  \<^verbatim>\<open>Get\<close> returns for an id with no record is not part of the statement.
\<close>

theorem session_Get_expiry:
  "(st (key sid) = Some node \<and> Unmarshal js (reply_text js (n_Value node)) = Inr sm
        \<and> etcd_sessionModel_session lib sm = Inr ses \<longrightarrow>
      etcd_sessionRepo_Get lib key js now st sid
        = (if s_ExpiresAt ses < now then Inl session_does_not_exist else Inr ses))
   \<and> (cc sid = Some msm \<and> mongo_sessionModel_session lib msm = Inr mses \<longrightarrow>
      mongo_sessionRepo_Get lib now cc sid
        = (if s_ExpiresAt mses < now then Inl session_does_not_exist else Inr mses))"
  by (simp add: etcd_sessionRepo_Get_def etcd_sessionRepo_get_def kAPI_Get_def
      mongo_sessionRepo_Get_def mgo_FindId_One_def)

text \<open>
  Claim C6 as stated fails at the instant of expiry: a session created with expiry at
  second 100 is returned by \<^verbatim>\<open>Get\<close> when the clock reads second 100 exactly, where a
  session that was never created gives an error.
\<close>

theorem session_Get_boundary_counterexample:
  "(case etcd_sessionRepo_Create standin_sessionlibs (\<lambda>i. ''/dex/session/'' @ i) standin_json_session
           Map.empty a_Session of
      Inl err \<Rightarrow> Inl err
    | Inr st \<Rightarrow> etcd_sessionRepo_Get standin_sessionlibs (\<lambda>i. ''/dex/session/'' @ i) standin_json_session
                  100000000000 st ''s1'')
     = Inr a_Session
   \<and> s_ExpiresAt a_Session \<le> 100000000000
   \<and> etcd_sessionRepo_Get standin_sessionlibs (\<lambda>i. ''/dex/session/'' @ i) standin_json_session
        100000000000 Map.empty ''s1''
     = (Inl (EtcdError ErrorCodeKeyNotFound) :: error + (string, string) Session)
   \<and> (case mongo_sessionRepo_Create standin_sessionlibs Map.empty a_Session of
      Inl err \<Rightarrow> Inl err
    | Inr cc \<Rightarrow> mongo_sessionRepo_Get standin_sessionlibs 100000000000 cc ''s1'')
     = Inr a_Session
   \<and> mongo_sessionRepo_Get standin_sessionlibs 100000000000 Map.empty ''s1''
     = (Inl mgo_ErrNotFound :: error + (string, string) Session)"
  by (simp add: etcd_sessionRepo_Create_def etcd_newSessionModel_def etcd_sessionRepo_insert_def
      kAPI_Create_def under_a_value_empty etcd_missing_def
      etcd_sessionRepo_Get_def etcd_sessionRepo_get_def kAPI_Get_def
      etcd_sessionModel_session_def IsZero_def zero_Time_def time_Unix_def time_of_Unix_def
      mongo_sessionRepo_Create_def mongo_newSessionModel_def mongo_sessionModel_bson_def bson_time_def
      mgo_Insert_def mongo_sessionRepo_Get_def mgo_FindId_One_def mongo_sessionModel_session_def)

text \<open>The theorem of claim C6 one nanosecond after the expiry and at the expiry.\<close>

theorem session_Get_expiry_witness:
  "etcd_sessionRepo_Get standin_sessionlibs (\<lambda>i. ''/dex/session/'' @ i) standin_json_session 100000000001
      [''/dex/session/s1'' \<mapsto>
         \<lparr>n_Dir = False, n_Value = ''{id:s1,state:NEW,created_at:40,expires_at:100}''\<rparr>] ''s1''
     = (Inl session_does_not_exist :: error + (string, string) Session)
   \<and> etcd_sessionRepo_Get standin_sessionlibs (\<lambda>i. ''/dex/session/'' @ i) standin_json_session 100000000000
      [''/dex/session/s1'' \<mapsto>
         \<lparr>n_Dir = False, n_Value = ''{id:s1,state:NEW,created_at:40,expires_at:100}''\<rparr>] ''s1''
     = Inr a_Session
   \<and> mongo_sessionRepo_Get standin_sessionlibs 100000000001
      [''s1'' \<mapsto>
         \<lparr>ms_ID = ''s1'', ms_State = ''NEW'', ms_CreatedAt = 40000000000, ms_ExpiresAt = 100000000000,
          ms_ClientID = ''app'', ms_ClientState = ''xyz'', ms_RedirectURL = ''http://app.example/cb'',
          ms_Identity = ''{}'', ms_ConnectorID = ''local'', ms_UserID = ''alice'', ms_Register = False,
          ms_Nonce = ''n'', ms_Scope = [''openid'']\<rparr>] ''s1''
     = (Inl session_does_not_exist :: error + (string, string) Session)
   \<and> mongo_sessionRepo_Get standin_sessionlibs 100000000000
      [''s1'' \<mapsto>
         \<lparr>ms_ID = ''s1'', ms_State = ''NEW'', ms_CreatedAt = 40000000000, ms_ExpiresAt = 100000000000,
          ms_ClientID = ''app'', ms_ClientState = ''xyz'', ms_RedirectURL = ''http://app.example/cb'',
          ms_Identity = ''{}'', ms_ConnectorID = ''local'', ms_UserID = ''alice'', ms_Register = False,
          ms_Nonce = ''n'', ms_Scope = [''openid'']\<rparr>] ''s1''
     = Inr a_Session"
proof -
  let ?key = "\<lambda>i. ''/dex/session/'' @ i"
  let ?js = "standin_json_session"
  let ?node = "\<lparr>n_Dir = False, n_Value = ''{id:s1,state:NEW,created_at:40,expires_at:100}''\<rparr>"
  let ?msm = "\<lparr>ms_ID = ''s1'', ms_State = ''NEW'', ms_CreatedAt = 40000000000, ms_ExpiresAt = 100000000000,
          ms_ClientID = ''app'', ms_ClientState = ''xyz'', ms_RedirectURL = ''http://app.example/cb'',
          ms_Identity = ''{}'', ms_ConnectorID = ''local'', ms_UserID = ''alice'', ms_Register = False,
          ms_Nonce = ''n'', ms_Scope = [''openid'']\<rparr>"
  have e: "[''/dex/session/s1'' \<mapsto> ?node] (?key ''s1'') = Some ?node
      \<and> Unmarshal ?js (reply_text ?js (n_Value ?node)) = Inr a_sessionModel
      \<and> etcd_sessionModel_session standin_sessionlibs a_sessionModel = Inr a_Session"
    by (simp add: etcd_sessionModel_session_def time_of_Unix_def)
  have m: "[''s1'' \<mapsto> ?msm] ''s1'' = Some ?msm
      \<and> mongo_sessionModel_session standin_sessionlibs ?msm = Inr a_Session"
    by (simp add: mongo_sessionModel_session_def IsZero_def zero_Time_def)
  have e1: "etcd_sessionRepo_Get standin_sessionlibs ?key ?js 100000000001 [''/dex/session/s1'' \<mapsto> ?node] ''s1''
      = (if s_ExpiresAt a_Session < 100000000001 then Inl session_does_not_exist else Inr a_Session)"
    by (rule session_Get_expiry [where lib = standin_sessionlibs and key = ?key and js = ?js
          and st = "[''/dex/session/s1'' \<mapsto> ?node]" and sid = "''s1''" and node = ?node
          and sm = a_sessionModel and ses = a_Session, THEN conjunct1, THEN mp, OF e])
  have e2: "etcd_sessionRepo_Get standin_sessionlibs ?key ?js 100000000000 [''/dex/session/s1'' \<mapsto> ?node] ''s1''
      = (if s_ExpiresAt a_Session < 100000000000 then Inl session_does_not_exist else Inr a_Session)"
    by (rule session_Get_expiry [where lib = standin_sessionlibs and key = ?key and js = ?js
          and st = "[''/dex/session/s1'' \<mapsto> ?node]" and sid = "''s1''" and node = ?node
          and sm = a_sessionModel and ses = a_Session, THEN conjunct1, THEN mp, OF e])
  have m1: "mongo_sessionRepo_Get standin_sessionlibs 100000000001 [''s1'' \<mapsto> ?msm] ''s1''
      = (if s_ExpiresAt a_Session < 100000000001 then Inl session_does_not_exist else Inr a_Session)"
    by (rule session_Get_expiry [where lib = standin_sessionlibs and cc = "[''s1'' \<mapsto> ?msm]"
          and sid = "''s1''" and msm = ?msm and mses = a_Session, THEN conjunct2, THEN mp, OF m])
  have m2: "mongo_sessionRepo_Get standin_sessionlibs 100000000000 [''s1'' \<mapsto> ?msm] ''s1''
      = (if s_ExpiresAt a_Session < 100000000000 then Inl session_does_not_exist else Inr a_Session)"
    by (rule session_Get_expiry [where lib = standin_sessionlibs and cc = "[''s1'' \<mapsto> ?msm]"
          and sid = "''s1''" and msm = ?msm and mses = a_Session, THEN conjunct2, THEN mp, OF m])
  show ?thesis
    unfolding e1 e2 m1 m2 by simp
qed

text \<open>On etcd \<^verbatim>\<open>Update\<close> of a session whose node exists never succeeds.\<close>

lemma etcd_sessionRepo_Update_existing:
  "st (key (s_ID s)) = Some node \<Longrightarrow>
   etcd_sessionRepo_Update lib key js st s
     = (case etcd_newSessionModel lib s of
          Inl err \<Rightarrow> Inl err
        | Inr sm \<Rightarrow>
            (case Marshal js sm of
               Inl err \<Rightarrow> Inl err
             | Inr b \<Rightarrow> Inl (EtcdError ErrorCodeNodeExist)))"
  by (auto simp add: etcd_sessionRepo_Update_def etcd_sessionRepo_insert_def kAPI_Create_def
      etcd_newSessionModel_def split: sum.splits)

text \<open>
  Claim C7 fails on etcd. \<^verbatim>\<open>Update\<close> calls \<^verbatim>\<open>insert\<close>, which calls \<^verbatim>\<open>kAPI.Create\<close>: after
  \<^verbatim>\<open>Create(s)\<close>, the \<^verbatim>\<open>Update\<close> of \<open>s\<close> with a new state fails with \<^verbatim>\<open>Key already exists\<close>.
  On MongoDB the same \<^verbatim>\<open>Update\<close> succeeds and \<^verbatim>\<open>Get\<close> returns the updated session.
\<close>

theorem etcd_session_Update_after_Create_fails:
  "(case etcd_sessionRepo_Create standin_sessionlibs (\<lambda>i. ''/dex/session/'' @ i) standin_json_session
           Map.empty a_Session of
      Inl err \<Rightarrow> None
    | Inr st \<Rightarrow>
        Some (etcd_sessionRepo_Update standin_sessionlibs (\<lambda>i. ''/dex/session/'' @ i) standin_json_session st
                (a_Session\<lparr>s_State := ''IDENTIFIED''\<rparr>)))
     = Some (Inl (EtcdError ErrorCodeNodeExist))
   \<and> (case mongo_sessionRepo_Create standin_sessionlibs Map.empty a_Session of
      Inl err \<Rightarrow> None
    | Inr cc \<Rightarrow>
        (case mongo_sessionRepo_Update standin_sessionlibs cc (a_Session\<lparr>s_State := ''IDENTIFIED''\<rparr>) of
           Inl err \<Rightarrow> None
         | Inr cc' \<Rightarrow>
             Some (mongo_sessionRepo_Get standin_sessionlibs 100000000000 cc' ''s1'')))
     = Some (Inr (a_Session\<lparr>s_State := ''IDENTIFIED''\<rparr>))"
  by (simp add: etcd_sessionRepo_Create_def etcd_newSessionModel_def etcd_sessionRepo_insert_def
      kAPI_Create_def under_a_value_empty etcd_sessionRepo_Update_def IsZero_def zero_Time_def time_Unix_def
      mongo_sessionRepo_Create_def mongo_newSessionModel_def mongo_sessionModel_bson_def bson_time_def
      mgo_Insert_def mongo_sessionRepo_Update_def mgo_UpdateId_def
      mongo_sessionRepo_Get_def mgo_FindId_One_def mongo_sessionModel_session_def)

subsection \<open>Client identities\<close>

text \<open>
  Claim C8 fails on etcd. The key of the empty client id is the path of the directory
  that holds the clients, which exists as soon as one client is stored: \<^verbatim>\<open>Get\<close> returns
  the directory node, whose value is empty, \<^verbatim>\<open>json.Unmarshal\<close> fails on it, and
  \<^verbatim>\<open>Authenticate\<close> returns that error next to \<^verbatim>\<open>false\<close>, although no client has the empty
  id. (The client \<^verbatim>\<open>app\<close> stored here does authenticate with its secret.) On MongoDB
  \<^verbatim>\<open>Authenticate\<close> of the empty id returns \<^verbatim>\<open>(false, nil)\<close>.
\<close>

theorem etcd_clientIdentity_Authenticate_empty_id:
  "(case etcd_clientIdentityRepo_insert standin_clientIdentity_key standin_json_clientIdentity Map.empty
           \<lparr>ec_ID = ''app'', ec_Secret = [121, 97, 112], ec_Metadata = ''{}''\<rparr> of
      Inl err \<Rightarrow> None
    | Inr st \<Rightarrow>
        Some (etcd_clientIdentityRepo_Authenticate standin_bcrypt standin_base64
                standin_clientIdentity_key standin_json_clientIdentity st
                \<lparr>cc_ID = [], cc_Secret = ''cGF5''\<rparr>,
              etcd_clientIdentityRepo_Authenticate standin_bcrypt standin_base64
                standin_clientIdentity_key standin_json_clientIdentity st
                \<lparr>cc_ID = ''app'', cc_Secret = ''cGF5''\<rparr>))
   = Some ((False, Some (library_error ''unexpected end of JSON input'')), (True, None))
   \<and> mongo_clientIdentityRepo_Authenticate standin_bcrypt standin_base64
        [''app'' \<mapsto> \<lparr>mc_ID = ''app'', mc_Secret = [121, 97, 112], mc_Metadata = ''{}'', mc_DexAdmin = False\<rparr>]
        \<lparr>cc_ID = [], cc_Secret = ''cGF5''\<rparr>
     = (False, None)"
  by (simp add: etcd_clientIdentityRepo_insert_def kAPI_Create_def under_a_value_empty
      etcd_mkdirs_def path_ancestors_def
      etcd_clientIdentityRepo_Authenticate_def etcd_clientIdentityRepo_get_def kAPI_Get_def
      maxSecretLength_def mongo_clientIdentityRepo_Authenticate_def mgo_FindId_One_def)

text \<open>
  Where \<^verbatim>\<open>Authenticate\<close> does fail closed. On MongoDB, at every collection: it returns
  \<^verbatim>\<open>(false, nil)\<close> when no client has the id, when the secret does not decode as
  base64url, and when the decoded secret is longer than 72 bytes. On etcd it returns
  \<^verbatim>\<open>(false, nil)\<close> when the walk to the client's key ends at no node with only
  directories above, and when the node under the key parses as a client and the secret
  does not decode or decodes to more than 72 bytes.
\<close>

theorem clientIdentity_Authenticate_fails_closed:
  "(con (cc_ID creds) = None
      \<or> (\<exists>err. DecodeString b64 (cc_Secret creds) = Inl err)
      \<or> (\<exists>dec. DecodeString b64 (cc_Secret creds) = Inr dec \<and> 72 < length dec)
    \<longrightarrow> mongo_clientIdentityRepo_Authenticate bc b64 con creds = (False, None))
   \<and> (st (key (cc_ID creds)) = None \<and> \<not> under_a_value st (key (cc_ID creds))
    \<longrightarrow> etcd_clientIdentityRepo_Authenticate bc b64 key js st creds = (False, None))
   \<and> (st (key (cc_ID creds)) = Some node \<and> Unmarshal js (reply_text js (n_Value node)) = Inr cim
      \<and> ((\<exists>err. DecodeString b64 (cc_Secret creds) = Inl err)
          \<or> (\<exists>dec. DecodeString b64 (cc_Secret creds) = Inr dec \<and> 72 < length dec))
    \<longrightarrow> etcd_clientIdentityRepo_Authenticate bc b64 key js st creds = (False, None))"
  by (auto simp add: etcd_clientIdentityRepo_Authenticate_def etcd_clientIdentityRepo_get_def
      kAPI_Get_def etcd_missing_def mongo_clientIdentityRepo_Authenticate_def mgo_FindId_One_def
      maxSecretLength_def split: option.splits sum.splits)

text \<open>
  The theorem above for a secret that decodes to 75 bytes, a secret that does not
  decode, and an unknown client.
\<close>

theorem clientIdentity_Authenticate_fails_closed_witness:
  "mongo_clientIdentityRepo_Authenticate standin_bcrypt standin_base64
      [''app'' \<mapsto> \<lparr>mc_ID = ''app'', mc_Secret = [121, 97, 112], mc_Metadata = ''{}'', mc_DexAdmin = False\<rparr>]
      \<lparr>cc_ID = ''app'', cc_Secret = replicate 100 CHR ''A''\<rparr> = (False, None)
   \<and> mongo_clientIdentityRepo_Authenticate standin_bcrypt standin_base64
      [''app'' \<mapsto> \<lparr>mc_ID = ''app'', mc_Secret = [121, 97, 112], mc_Metadata = ''{}'', mc_DexAdmin = False\<rparr>]
      \<lparr>cc_ID = ''app'', cc_Secret = ''not base64!''\<rparr> = (False, None)
   \<and> mongo_clientIdentityRepo_Authenticate standin_bcrypt standin_base64
      [''app'' \<mapsto> \<lparr>mc_ID = ''app'', mc_Secret = [121, 97, 112], mc_Metadata = ''{}'', mc_DexAdmin = False\<rparr>]
      \<lparr>cc_ID = ''nobody'', cc_Secret = ''cGF5''\<rparr> = (False, None)
   \<and> etcd_clientIdentityRepo_Authenticate standin_bcrypt standin_base64
      standin_clientIdentity_key standin_json_clientIdentity Map.empty
      \<lparr>cc_ID = ''nobody'', cc_Secret = ''cGF5''\<rparr> = (False, None)
   \<and> etcd_clientIdentityRepo_Authenticate standin_bcrypt standin_base64
      standin_clientIdentity_key standin_json_clientIdentity
      [''/dex/client_identity/identity/app'' \<mapsto> \<lparr>n_Dir = False, n_Value = ''{id:app,secret:eWFw,metadata:{}}''\<rparr>]
      \<lparr>cc_ID = ''app'', cc_Secret = replicate 100 CHR ''A''\<rparr> = (False, None)"
proof -
  let ?con = "[''app'' \<mapsto> \<lparr>mc_ID = ''app'', mc_Secret = [121, 97, 112], mc_Metadata = ''{}'', mc_DexAdmin = False\<rparr>]"
  let ?node = "\<lparr>n_Dir = False, n_Value = ''{id:app,secret:eWFw,metadata:{}}''\<rparr>"
  let ?st = "[''/dex/client_identity/identity/app'' \<mapsto> ?node]"
  have ne: "replicate 100 CHR ''A'' \<noteq> ''cGF5''" "''not base64!'' \<noteq> replicate 100 CHR ''A''"
    by (auto dest: arg_cong [where f = length])
  have m1: "mongo_clientIdentityRepo_Authenticate standin_bcrypt standin_base64 ?con
      \<lparr>cc_ID = ''app'', cc_Secret = replicate 100 CHR ''A''\<rparr> = (False, None)"
    by (rule clientIdentity_Authenticate_fails_closed [where ?b64.0 = standin_base64 and con = ?con
          and creds = "\<lparr>cc_ID = ''app'', cc_Secret = replicate 100 CHR ''A''\<rparr>",
          THEN conjunct1, THEN mp]) (simp add: ne)
  have m2: "mongo_clientIdentityRepo_Authenticate standin_bcrypt standin_base64 ?con
      \<lparr>cc_ID = ''app'', cc_Secret = ''not base64!''\<rparr> = (False, None)"
    by (rule clientIdentity_Authenticate_fails_closed [where ?b64.0 = standin_base64 and con = ?con
          and creds = "\<lparr>cc_ID = ''app'', cc_Secret = ''not base64!''\<rparr>",
          THEN conjunct1, THEN mp]) (simp add: ne)
  have m3: "mongo_clientIdentityRepo_Authenticate standin_bcrypt standin_base64 ?con
      \<lparr>cc_ID = ''nobody'', cc_Secret = ''cGF5''\<rparr> = (False, None)"
    by (rule clientIdentity_Authenticate_fails_closed [where ?b64.0 = standin_base64 and con = ?con
          and creds = "\<lparr>cc_ID = ''nobody'', cc_Secret = ''cGF5''\<rparr>",
          THEN conjunct1, THEN mp]) simp
  have e1: "etcd_clientIdentityRepo_Authenticate standin_bcrypt standin_base64
      standin_clientIdentity_key standin_json_clientIdentity Map.empty
      \<lparr>cc_ID = ''nobody'', cc_Secret = ''cGF5''\<rparr> = (False, None)"
    by (rule clientIdentity_Authenticate_fails_closed [where st = Map.empty and key = standin_clientIdentity_key
          and creds = "\<lparr>cc_ID = ''nobody'', cc_Secret = ''cGF5''\<rparr>",
          THEN conjunct2, THEN conjunct1, THEN mp]) (simp add: under_a_value_empty)
  have e2: "etcd_clientIdentityRepo_Authenticate standin_bcrypt standin_base64
      standin_clientIdentity_key standin_json_clientIdentity ?st
      \<lparr>cc_ID = ''app'', cc_Secret = replicate 100 CHR ''A''\<rparr> = (False, None)"
    by (rule clientIdentity_Authenticate_fails_closed [where ?b64.0 = standin_base64 and st = ?st
          and key = standin_clientIdentity_key and js = standin_json_clientIdentity and node = ?node
          and cim = "\<lparr>ec_ID = ''app'', ec_Secret = [121, 97, 112], ec_Metadata = ''{}''\<rparr>"
          and creds = "\<lparr>cc_ID = ''app'', cc_Secret = replicate 100 CHR ''A''\<rparr>",
          THEN conjunct2, THEN conjunct2, THEN mp]) (simp add: ne)
  show ?thesis
    by (intro conjI m1 m2 m3 e1 e2)
qed

subsection \<open>Users\<close>

lemma find_Some_D: "find P xs = Some x \<Longrightarrow> x \<in> set xs \<and> P x"
  by (induction xs) (auto split: if_splits)

lemma find_exists: "x \<in> set xs \<Longrightarrow> P x \<Longrightarrow> \<exists>y. find P xs = Some y"
  by (induction xs) auto

lemma mgo_Update_Inr:
  "mgo_Update P new c = Inr c' \<Longrightarrow>
   \<exists>pre d post. c = pre @ d # post \<and> P d \<and> c' = pre @ new # post"
proof (induction c arbitrary: c')
  case Nil
  then show ?case by simp
next
  case (Cons x xs)
  show ?case
  proof (cases "P x")
    case True
    with Cons.prems have "c' = new # xs" by simp
    with True show ?thesis by (intro exI[of _ "[]"] exI[of _ x] exI[of _ xs]) simp
  next
    case False
    with Cons.prems obtain ds where ds: "mgo_Update P new xs = Inr ds" and c': "c' = x # ds"
      by (auto split: sum.splits)
    from Cons.IH [OF ds] obtain pre d post where "xs = pre @ d # post" "P d" "ds = pre @ new # post"
      by blast
    then show ?thesis using c' by (intro exI[of _ "x # pre"] exI[of _ d] exI[of _ post]) simp
  qed
qed

lemma userRepo_Create_DuplicateID:
  assumes "u_ID usr \<noteq> []" and "u_ID usr \<in> um_ID ` set c"
  shows "userRepo_Create V c usr = Inl user_ErrorDuplicateID"
proof -
  from assms(2) obtain d where "d \<in> set c" "um_ID d = u_ID usr" by auto
  then obtain y where "find (\<lambda>d. um_ID d = u_ID usr) c = Some y"
    using find_exists [of d c "\<lambda>d. um_ID d = u_ID usr"] by auto
  then show ?thesis using assms(1) by (simp add: userRepo_Create_def mgo_Find_One_def)
qed

lemma find_ID_None: "i \<notin> um_ID ` set c \<Longrightarrow> find (\<lambda>d. um_ID d = i) c = None"
  by (induction c) auto

lemma userRepo_Create_InvalidEmail:
  assumes "u_ID usr \<noteq> []" and "u_ID usr \<notin> um_ID ` set c" and "\<not> V (u_Email usr)"
  shows "userRepo_Create V c usr = Inl user_ErrorInvalidEmail"
  using assms by (simp add: userRepo_Create_def mgo_Find_One_def find_ID_None)

lemma userRepo_Create_DuplicateEmail:
  assumes "u_ID usr \<noteq> []" and "u_ID usr \<notin> um_ID ` set c" and "V (u_Email usr)"
    and "u_Email usr \<in> um_Email ` set c"
  shows "userRepo_Create V c usr = Inl user_ErrorDuplicateEmail"
proof -
  from assms(4) obtain d where "d \<in> set c" "um_Email d = u_Email usr" by auto
  then obtain y where "find (\<lambda>d. um_Email d = u_Email usr) c = Some y"
    using find_exists [of d c "\<lambda>d. um_Email d = u_Email usr"] by auto
  then show ?thesis
    using assms(1-3)
    by (simp add: userRepo_Create_def mgo_Find_One_def find_ID_None userRepo_GetByEmail_def)
qed

lemma userRepo_Create_Inr:
  assumes "userRepo_Create V c usr = Inr c'"
  shows "u_ID usr \<noteq> [] \<and> u_ID usr \<notin> um_ID ` set c \<and> V (u_Email usr)
         \<and> u_Email usr \<notin> um_Email ` set c \<and> c' = c @ [newUserModel usr]"
proof -
  have id: "u_ID usr \<noteq> []"
    using assms by (auto simp add: userRepo_Create_def)
  have fresh: "u_ID usr \<notin> um_ID ` set c"
    using assms userRepo_Create_DuplicateID [where V = V and c = c and usr = usr, OF id] by auto
  have valid: "V (u_Email usr)"
    using assms userRepo_Create_InvalidEmail [where V = V and c = c and usr = usr, OF id fresh] by auto
  have email: "u_Email usr \<notin> um_Email ` set c"
    using assms userRepo_Create_DuplicateEmail [where V = V and c = c and usr = usr, OF id fresh valid] by auto
  have "find (\<lambda>d. um_Email d = u_Email usr) c = None"
    using email by (induction c) auto
  then have "c' = c @ [newUserModel usr]"
    using assms id fresh valid
    by (auto simp add: userRepo_Create_def mgo_Find_One_def find_ID_None userRepo_GetByEmail_def
        mgo_Insert_user_def newUserModel_def split: if_splits)
  then show ?thesis using id fresh valid email by simp
qed

lemma userRepo_Create_inv:
  assumes "userstore_inv c" and "userRepo_Create V c usr = Inr c'"
  shows "userstore_inv c'"
  using assms(1) userRepo_Create_Inr [OF assms(2)]
  by (auto simp add: userstore_inv_def newUserModel_def)

lemma userRepo_Update_DuplicateEmail:
  assumes inv: "userstore_inv c" and id: "u_ID usr \<in> um_ID ` set c" and valid: "V (u_Email usr)"
    and other: "d \<in> set c" "um_Email d = u_Email usr" "um_ID d \<noteq> u_ID usr"
  shows "userRepo_Update V c usr = Inl user_ErrorDuplicateEmail"
proof -
  have ne: "u_ID usr \<noteq> []"
    using inv id by (auto simp add: userstore_inv_def)
  from id obtain x where "x \<in> set c" "um_ID x = u_ID usr" by auto
  then obtain y where y: "find (\<lambda>d. um_ID d = u_ID usr) c = Some y"
    using find_exists [of x c "\<lambda>d. um_ID d = u_ID usr"] by auto
  obtain z where z: "find (\<lambda>d. um_Email d = u_Email usr) c = Some z"
    using find_exists [of d c "\<lambda>d. um_Email d = u_Email usr"] other by auto
  have zc: "z \<in> set c" and ze: "um_Email z = u_Email usr"
    using find_Some_D [OF z] by auto
  have inj: "inj_on um_Email (set c)"
    using inv by (simp add: userstore_inv_def distinct_map)
  have "z = d"
    using inj_onD [OF inj, of z d] zc ze other by simp
  then show ?thesis
    using ne valid y z other by (simp add: userRepo_Update_def mgo_Find_One_def)
qed

lemma userRepo_Update_Inr:
  assumes "userRepo_Update V c usr = Inr c'"
  shows "u_ID usr \<noteq> [] \<and> mgo_Update (\<lambda>d. um_ID d = u_ID usr) (newUserModel usr) c = Inr c'
         \<and> (\<forall>z. find (\<lambda>d. um_Email d = u_Email usr) c = Some z \<longrightarrow> um_ID z = u_ID usr)"
  using assms
  by (auto simp add: userRepo_Update_def mgo_Find_One_def split: if_splits option.splits)

lemma userRepo_Update_inv:
  assumes inv: "userstore_inv c" and upd: "userRepo_Update V c usr = Inr c'"
  shows "userstore_inv c'"
proof -
  from userRepo_Update_Inr [OF upd]
  have ne: "u_ID usr \<noteq> []"
    and u: "mgo_Update (\<lambda>d. um_ID d = u_ID usr) (newUserModel usr) c = Inr c'"
    and holder: "\<forall>z. find (\<lambda>d. um_Email d = u_Email usr) c = Some z \<longrightarrow> um_ID z = u_ID usr"
    by auto
  from mgo_Update_Inr [OF u] obtain pre d post
    where c: "c = pre @ d # post" and d: "um_ID d = u_ID usr" and c': "c' = pre @ newUserModel usr # post"
    by blast
  have inj: "inj_on um_Email (set c)"
    using inv by (simp add: userstore_inv_def distinct_map)
  have holders: "um_ID x = u_ID usr" if x: "x \<in> set c" "um_Email x = u_Email usr" for x
  proof -
    obtain z where z: "find (\<lambda>d. um_Email d = u_Email usr) c = Some z"
      using find_exists [of x c "\<lambda>d. um_Email d = u_Email usr"] x by auto
    have zc: "z \<in> set c" and ze: "um_Email z = u_Email usr"
      using find_Some_D [OF z] by auto
    have "z = x"
      using inj_onD [OF inj, of z x] zc ze x by simp
    then show ?thesis using holder z by simp
  qed
  have others: "um_ID x \<noteq> u_ID usr" if "x \<in> set pre \<union> set post" for x
  proof
    assume "um_ID x = u_ID usr"
    then have "um_ID d \<in> um_ID ` (set pre \<union> set post)"
      using that d by (metis imageI)
    then show False
      using inv unfolding userstore_inv_def c by auto
  qed
  have email_free: "u_Email usr \<notin> um_Email ` (set pre \<union> set post)"
  proof
    assume "u_Email usr \<in> um_Email ` (set pre \<union> set post)"
    then obtain x where x: "x \<in> set pre \<union> set post" "um_Email x = u_Email usr"
      by (metis imageE)
    then have "x \<in> set c" unfolding c by auto
    then have "um_ID x = u_ID usr" using holders x by blast
    then show False using others x by blast
  qed
  have ids: "map um_ID c' = map um_ID c"
    unfolding c c' using d by (simp add: newUserModel_def)
  have "distinct (map um_Email c')"
    using inv email_free unfolding userstore_inv_def c c' by (auto simp add: newUserModel_def)
  then show ?thesis
    using inv ids unfolding userstore_inv_def by (metis list.set_map)
qed

text \<open>
  Claim C9. On a \<^verbatim>\<open>User\<close> collection with unique non-empty ids and unique emails (the
  empty collection is one): \<^verbatim>\<open>Create\<close> fails with \<^verbatim>\<open>ErrorDuplicateID\<close> when a user has the
  id; otherwise with \<^verbatim>\<open>ErrorInvalidEmail\<close> when the email is not valid; otherwise with
  \<^verbatim>\<open>ErrorDuplicateEmail\<close> when a user holds the email. \<^verbatim>\<open>Update\<close> of an existing user to
  a valid email that another user holds fails with \<^verbatim>\<open>ErrorDuplicateEmail\<close>. A
  successful \<^verbatim>\<open>Create\<close> or \<^verbatim>\<open>Update\<close> leaves a collection with unique non-empty ids and
  unique emails. After a successful \<^verbatim>\<open>Create\<close>, the \<^verbatim>\<open>Create\<close> of a second user with a new
  id and the same email fails with \<^verbatim>\<open>ErrorDuplicateEmail\<close>.
\<close>

theorem userstore_uniqueness:
  assumes "userstore_inv c"
  shows "userstore_inv []
    \<and> (u_ID usr \<in> um_ID ` set c \<longrightarrow> userRepo_Create V c usr = Inl user_ErrorDuplicateID)
    \<and> (u_ID usr \<noteq> [] \<and> u_ID usr \<notin> um_ID ` set c \<and> \<not> V (u_Email usr) \<longrightarrow>
          userRepo_Create V c usr = Inl user_ErrorInvalidEmail)
    \<and> (u_ID usr \<noteq> [] \<and> u_ID usr \<notin> um_ID ` set c \<and> V (u_Email usr)
          \<and> u_Email usr \<in> um_Email ` set c \<longrightarrow>
          userRepo_Create V c usr = Inl user_ErrorDuplicateEmail)
    \<and> (u_ID usr \<in> um_ID ` set c \<and> V (u_Email usr)
          \<and> (\<exists>d\<in>set c. um_Email d = u_Email usr \<and> um_ID d \<noteq> u_ID usr) \<longrightarrow>
          userRepo_Update V c usr = Inl user_ErrorDuplicateEmail)
    \<and> (\<forall>c'. userRepo_Create V c usr = Inr c' \<longrightarrow> userstore_inv c')
    \<and> (\<forall>c'. userRepo_Update V c usr = Inr c' \<longrightarrow> userstore_inv c')
    \<and> (\<forall>c' second. userRepo_Create V c usr = Inr c' \<and> u_Email second = u_Email usr
          \<and> u_ID second \<noteq> [] \<and> u_ID second \<notin> um_ID ` set c' \<longrightarrow>
          userRepo_Create V c' second = Inl user_ErrorDuplicateEmail)"
proof -
  have empty: "userstore_inv []"
    by (simp add: userstore_inv_def)
  have dup_id: "userRepo_Create V c usr = Inl user_ErrorDuplicateID" if "u_ID usr \<in> um_ID ` set c"
  proof -
    have "u_ID usr \<noteq> []"
      using assms that by (auto simp add: userstore_inv_def)
    then show ?thesis using that by (rule userRepo_Create_DuplicateID)
  qed
  have bad_email: "userRepo_Create V c usr = Inl user_ErrorInvalidEmail"
    if "u_ID usr \<noteq> [] \<and> u_ID usr \<notin> um_ID ` set c \<and> \<not> V (u_Email usr)"
    using that by (intro userRepo_Create_InvalidEmail) auto
  have dup_email: "userRepo_Create V c usr = Inl user_ErrorDuplicateEmail"
    if "u_ID usr \<noteq> [] \<and> u_ID usr \<notin> um_ID ` set c \<and> V (u_Email usr) \<and> u_Email usr \<in> um_Email ` set c"
    using that by (intro userRepo_Create_DuplicateEmail) auto
  have upd: "userRepo_Update V c usr = Inl user_ErrorDuplicateEmail"
    if "u_ID usr \<in> um_ID ` set c \<and> V (u_Email usr)
          \<and> (\<exists>d\<in>set c. um_Email d = u_Email usr \<and> um_ID d \<noteq> u_ID usr)"
  proof -
    from that obtain d where "d \<in> set c" "um_Email d = u_Email usr" "um_ID d \<noteq> u_ID usr"
      by blast
    then show ?thesis
      using assms that by (intro userRepo_Update_DuplicateEmail [where d = d]) auto
  qed
  have keep_c: "userstore_inv c'" if "userRepo_Create V c usr = Inr c'" for c'
    using assms that by (rule userRepo_Create_inv)
  have keep_u: "userstore_inv c'" if "userRepo_Update V c usr = Inr c'" for c'
    using assms that by (rule userRepo_Update_inv)
  have twice: "userRepo_Create V c' second = Inl user_ErrorDuplicateEmail"
    if "userRepo_Create V c usr = Inr c' \<and> u_Email second = u_Email usr
          \<and> u_ID second \<noteq> [] \<and> u_ID second \<notin> um_ID ` set c'" for c' second
  proof -
    from that have cr: "userRepo_Create V c usr = Inr c'" by simp
    from userRepo_Create_Inr [OF cr]
    have "V (u_Email usr)" and "c' = c @ [newUserModel usr]" by auto
    then have "V (u_Email second)" and "u_Email second \<in> um_Email ` set c'"
      using that by (auto simp add: newUserModel_def)
    then show ?thesis
      using that by (intro userRepo_Create_DuplicateEmail) auto
  qed
  show ?thesis
    using empty dup_id bad_email dup_email upd keep_c keep_u twice by blast
qed

text \<open>The theorem of claim C9 for the users alice and bob.\<close>

theorem userstore_uniqueness_witness:
  "userstore_inv [newUserModel alice]
   \<and> userRepo_Create standin_ValidEmail [newUserModel alice] (bob\<lparr>u_ID := ''1''\<rparr>)
       = Inl user_ErrorDuplicateID
   \<and> userRepo_Create standin_ValidEmail [newUserModel alice] (bob\<lparr>u_Email := ''bob''\<rparr>)
       = Inl user_ErrorInvalidEmail
   \<and> userRepo_Create standin_ValidEmail [newUserModel alice] (bob\<lparr>u_Email := ''alice@example.com''\<rparr>)
       = Inl user_ErrorDuplicateEmail
   \<and> userRepo_Update standin_ValidEmail [newUserModel alice, newUserModel bob]
         (bob\<lparr>u_Email := ''alice@example.com''\<rparr>)
       = Inl user_ErrorDuplicateEmail
   \<and> userRepo_Create standin_ValidEmail [newUserModel alice] bob = Inr [newUserModel alice, newUserModel bob]
   \<and> userstore_inv [newUserModel alice, newUserModel bob]
   \<and> userRepo_Update standin_ValidEmail [newUserModel alice, newUserModel bob]
         (bob\<lparr>u_Email := ''robert@example.com''\<rparr>)
       = Inr [newUserModel alice, newUserModel (bob\<lparr>u_Email := ''robert@example.com''\<rparr>)]
   \<and> userstore_inv [newUserModel alice, newUserModel (bob\<lparr>u_Email := ''robert@example.com''\<rparr>)]
   \<and> userRepo_Create standin_ValidEmail [] alice = Inr [newUserModel alice]
   \<and> userRepo_Create standin_ValidEmail [newUserModel alice] (bob\<lparr>u_Email := ''alice@example.com''\<rparr>)
       = Inl user_ErrorDuplicateEmail"
proof -
  have i1: "userstore_inv [newUserModel alice]"
    and i2: "userstore_inv [newUserModel alice, newUserModel bob]"
    and i0: "userstore_inv []"
    by (simp_all add: userstore_inv_def newUserModel_def)
  have c1: "userRepo_Create standin_ValidEmail [] alice = Inr [newUserModel alice]"
    by (simp add: userRepo_Create_def mgo_Find_One_def userRepo_GetByEmail_def mgo_Insert_user_def)
  have c2: "userRepo_Create standin_ValidEmail [newUserModel alice] bob
              = Inr [newUserModel alice, newUserModel bob]"
    by (simp add: userRepo_Create_def mgo_Find_One_def userRepo_GetByEmail_def mgo_Insert_user_def
        newUserModel_def)
  have u2: "userRepo_Update standin_ValidEmail [newUserModel alice, newUserModel bob]
         (bob\<lparr>u_Email := ''robert@example.com''\<rparr>)
       = Inr [newUserModel alice, newUserModel (bob\<lparr>u_Email := ''robert@example.com''\<rparr>)]"
    by (simp add: userRepo_Update_def mgo_Find_One_def newUserModel_def)
  have w2: "userRepo_Create standin_ValidEmail [newUserModel alice] (bob\<lparr>u_ID := ''1''\<rparr>)
       = Inl user_ErrorDuplicateID"
    by (rule userstore_uniqueness [OF i1, THEN conjunct2, THEN conjunct1, THEN mp])
      (simp add: newUserModel_def)
  have w3: "userRepo_Create standin_ValidEmail [newUserModel alice] (bob\<lparr>u_Email := ''bob''\<rparr>)
       = Inl user_ErrorInvalidEmail"
    by (rule userstore_uniqueness [OF i1, THEN conjunct2, THEN conjunct2, THEN conjunct1, THEN mp])
      (simp add: newUserModel_def)
  have w4: "userRepo_Create standin_ValidEmail [newUserModel alice] (bob\<lparr>u_Email := ''alice@example.com''\<rparr>)
       = Inl user_ErrorDuplicateEmail"
    by (rule userstore_uniqueness [OF i1, THEN conjunct2, THEN conjunct2, THEN conjunct2,
          THEN conjunct1, THEN mp])
      (simp add: newUserModel_def)
  have w5: "userRepo_Update standin_ValidEmail [newUserModel alice, newUserModel bob]
         (bob\<lparr>u_Email := ''alice@example.com''\<rparr>)
       = Inl user_ErrorDuplicateEmail"
    by (rule userstore_uniqueness [OF i2, THEN conjunct2, THEN conjunct2, THEN conjunct2,
          THEN conjunct2, THEN conjunct1, THEN mp])
      (simp add: newUserModel_def)
  have w6: "userstore_inv [newUserModel alice, newUserModel bob]"
    by (rule userstore_uniqueness [OF i1, where V = standin_ValidEmail and usr = bob,
          THEN conjunct2, THEN conjunct2, THEN conjunct2, THEN conjunct2, THEN conjunct2,
          THEN conjunct1, THEN spec, THEN mp])
      (rule c2)
  have w7: "userstore_inv [newUserModel alice, newUserModel (bob\<lparr>u_Email := ''robert@example.com''\<rparr>)]"
    by (rule userstore_uniqueness [OF i2, where V = standin_ValidEmail
            and usr = "bob\<lparr>u_Email := ''robert@example.com''\<rparr>",
          THEN conjunct2, THEN conjunct2, THEN conjunct2, THEN conjunct2, THEN conjunct2,
          THEN conjunct2, THEN conjunct1, THEN spec, THEN mp])
      (rule u2)
  have w8: "userRepo_Create standin_ValidEmail [newUserModel alice] (bob\<lparr>u_Email := ''alice@example.com''\<rparr>)
       = Inl user_ErrorDuplicateEmail"
    by (rule userstore_uniqueness [OF i0, where V = standin_ValidEmail and usr = alice,
          THEN conjunct2, THEN conjunct2, THEN conjunct2, THEN conjunct2, THEN conjunct2,
          THEN conjunct2, THEN conjunct2, THEN spec, THEN spec, THEN mp])
      (simp add: c1 newUserModel_def)
  show ?thesis
    using i1 w2 w3 w4 w5 c2 w6 u2 w7 c1 w8 by blast
qed

end
